theory Spec2Isabelle
  imports Main "HOL-Library.Sublist"
begin

section \<open>JavaScript values\<close>

text \<open>
  The values a form field holds and the literals a visibility condition compares them with
  are JavaScript primitives: \<open>undefined\<close>, \<open>null\<close>, booleans, numbers and strings.
  \<open>JNumber n\<close> stands for the integer-valued number \<open>n\<close> (of magnitude below \<open>10^21\<close>, where
  JavaScript prints a number in plain decimal); \<open>JNaN\<close> is the number \<open>NaN\<close>. Fractions,
  objects, arrays and symbols are outside the model. A string is the list of its code units.
\<close>

datatype js_value =
    JUndefined
  | JNull
  | JBool bool
  | JNumber int
  | JNaN
  | JString string

text \<open>\<open>a === b\<close> on primitives: same type and same value, and \<open>NaN\<close> equals nothing.\<close>

definition strict_eq :: "js_value \<Rightarrow> js_value \<Rightarrow> bool" where
  "strict_eq a b = (a = b \<and> a \<noteq> JNaN)"

text \<open>Truthiness: \<open>undefined\<close>, \<open>null\<close>, \<open>false\<close>, \<open>0\<close>, \<open>NaN\<close> and \<open>""\<close> are falsy.\<close>

fun truthy :: "js_value \<Rightarrow> bool" where
  "truthy JUndefined = False"
| "truthy JNull = False"
| "truthy (JBool b) = b"
| "truthy (JNumber n) = (n \<noteq> 0)"
| "truthy JNaN = False"
| "truthy (JString s) = (s \<noteq> [])"

text \<open>Decimal digits of a natural number, most significant first.\<close>

function show_nat :: "nat \<Rightarrow> string" where
  "show_nat n =
     (if n < 10 then [char_of (48 + n)]
      else show_nat (n div 10) @ [char_of (48 + n mod 10)])"
  by pat_completeness auto
termination
  by (relation "measure id") auto

definition show_int :: "int \<Rightarrow> string" where
  "show_int i = (if i < 0 then CHR ''-'' # show_nat (nat (- i)) else show_nat (nat i))"

text \<open>\<open>String(v)\<close>, the conversion JavaScript applies to a non-string argument.\<close>

fun to_string :: "js_value \<Rightarrow> string" where
  "to_string JUndefined = ''undefined''"
| "to_string JNull = ''null''"
| "to_string (JBool b) = (if b then ''true'' else ''false'')"
| "to_string (JNumber n) = show_int n"
| "to_string JNaN = ''NaN''"
| "to_string (JString s) = s"

text \<open>
  \<open>s.includes(t)\<close>: \<open>t\<close> occurs in \<open>s\<close> at some position. The search tries every start
  position from the left.
\<close>

fun str_includes :: "string \<Rightarrow> string \<Rightarrow> bool" where
  "str_includes [] t = (t = [])"
| "str_includes (c # cs) t = (prefix t (c # cs) \<or> str_includes cs t)"

section \<open>Visibility conditions (ZodForm.tsx)\<close>

text \<open>
  One entry of a field's \<open>showConditions\<close> metadata:
  \<open>{ field: string, operator: string, value?: any }\<close>. A condition written without
  \<open>value\<close> has \<open>cond_value = JUndefined\<close>. The operator is the string the schema author
  wrote; the evaluator compares it with its \<open>case\<close> labels.
\<close>

record condition =
  field :: string
  operator :: string
  cond_value :: js_value

text \<open>
  \<open>watchedValues\<close>, the current value of every form field. Reading a name that is not
  in the object gives \<open>undefined\<close>.
\<close>

type_synonym value_map = "string \<rightharpoonup> js_value"

definition read_field :: "value_map \<Rightarrow> string \<Rightarrow> js_value" where
  "read_field watchedValues name =
     (case watchedValues name of None \<Rightarrow> JUndefined | Some v \<Rightarrow> v)"

text \<open>The \<open>case\<close> labels of the evaluator's \<open>switch (condition.operator)\<close>, in order.\<close>

definition case_labels :: "string list" where
  "case_labels = [''equals'', ''notEquals'', ''contains'', ''notContains'', ''true'', ''false'']"

text \<open>
  The callback passed to \<open>showConditions.every\<close>: the \<open>switch\<close> on the operator, with
  \<open>default: return true\<close>.
\<close>

definition condition_holds :: "value_map \<Rightarrow> condition \<Rightarrow> bool" where
  "condition_holds watchedValues condition =
     (let fieldValue = read_field watchedValues (field condition) in
      if operator condition = ''equals'' then
        strict_eq fieldValue (cond_value condition)
      else if operator condition = ''notEquals'' then
        \<not> strict_eq fieldValue (cond_value condition)
      else if operator condition = ''contains'' then
        (case fieldValue of
           JString s \<Rightarrow> str_includes s (to_string (cond_value condition))
         | _ \<Rightarrow> False)
      else if operator condition = ''notContains'' then
        (case fieldValue of
           JString s \<Rightarrow> \<not> str_includes s (to_string (cond_value condition))
         | _ \<Rightarrow> False)
      else if operator condition = ''true'' then
        strict_eq fieldValue (JBool True)
      else if operator condition = ''false'' then
        strict_eq fieldValue (JBool False)
      else True)"

text \<open>
  \<open>isFieldVisible(showConditions)\<close> of the current \<open>ZodForm\<close>: an empty list is visible,
  otherwise every condition must hold.
\<close>

definition isFieldVisible :: "condition list \<Rightarrow> value_map \<Rightarrow> bool" where
  "isFieldVisible showConditions watchedValues =
     (if length showConditions = 0 then True
      else list_all (condition_holds watchedValues) showConditions)"

section \<open>Reading the \<open>showConditions\<close> metadata of a schema node\<close>

text \<open>
  A field of the schema is a zod type node. The compiler inspects it with \<open>instanceof\<close>
  (\<open>ZodString\<close>, \<open>ZodNumber\<close>, \<open>ZodBoolean\<close>, \<open>ZodEnum\<close>, \<open>ZodOptional\<close>; anything else is
  \<open>ZodOther\<close>), asks \<open>isOptional()\<close> and calls \<open>meta()\<close>. The node carries the answers of
  the library: \<open>isOptional\<close> is what \<open>isOptional()\<close> returns, \<open>meta\<close> is the outcome of the
  call \<open>meta()\<close>, which may throw (\<open>Inl\<close>) or return a value.
\<close>

datatype error = TypeError

text \<open>
  The \<open>showConditions\<close> property of a metadata object: an array of conditions, or any
  other value (\<open>ScOther JUndefined\<close> when the key is missing).
\<close>

datatype sc_value = ScArray "condition list" | ScOther js_value

datatype meta_value = MetaNull | MetaUndefined | MetaObject sc_value

text \<open>
  A check attached to a node, with its message: \<open>min(n, message)\<close>, \<open>email(message)\<close> or
  \<open>refine(predicate, { message })\<close>. \<open>check_kind\<close> is the \<open>kind\<close> the compiler reads from
  an entry of \<open>_def.checks\<close>; it looks for \<open>'email'\<close>.
\<close>

datatype zod_check =
    MinLength nat string
  | Email string
  | Refine "js_value \<Rightarrow> bool" string

fun check_kind :: "zod_check \<Rightarrow> string" where
  "check_kind (MinLength n m) = ''min''"
| "check_kind (Email m) = ''email''"
| "check_kind (Refine p m) = ''custom''"

datatype zod_def =
    ZodString "zod_check list"
  | ZodNumber
  | ZodBoolean "zod_check list"
  | ZodEnum "js_value list"
  | ZodOptional zod_schema
  | ZodOther
and zod_schema =
    ZodSchema (def: zod_def) (isOptional: bool) (meta: "error + meta_value")

fun meta_truthy :: "meta_value \<Rightarrow> bool" where
  "meta_truthy MetaNull = False"
| "meta_truthy MetaUndefined = False"
| "meta_truthy (MetaObject p) = True"

text \<open>\<open>try { meta = s.meta(); } catch (e) { }\<close>: on a throw \<open>meta\<close> keeps its value.\<close>

definition try_meta :: "zod_schema \<Rightarrow> meta_value \<Rightarrow> error + meta_value" where
  "try_meta s current = (case meta s of Inr m \<Rightarrow> Inr m | Inl e \<Rightarrow> Inr current)"

text \<open>
  The metadata lookup shared by \<open>getShowConditions\<close> and by \<open>fieldConfigs\<close>:
  \<open>meta\<close> starts as \<open>null\<close>, is read from the node, and for a \<open>ZodOptional\<close> node
  with no metadata found is read from the inner node. An error that no \<open>catch\<close> handles
  would be the result \<open>Inl\<close>.
\<close>

definition find_meta :: "zod_schema \<Rightarrow> error + meta_value" where
  "find_meta fieldSchema =
     (case try_meta fieldSchema MetaNull of
        Inl e \<Rightarrow> Inl e
      | Inr meta1 \<Rightarrow>
          (case def fieldSchema of
             ZodOptional innerSchema \<Rightarrow>
               if \<not> meta_truthy meta1 then try_meta innerSchema meta1 else Inr meta1
           | _ \<Rightarrow> Inr meta1))"

text \<open>\<open>meta?.showConditions\<close>.\<close>

fun meta_showConditions :: "meta_value \<Rightarrow> sc_value" where
  "meta_showConditions (MetaObject p) = p"
| "meta_showConditions m = ScOther JUndefined"

text \<open>\<open>getShowConditions(fieldSchema)\<close>: \<open>return meta?.showConditions || []\<close>.\<close>

definition getShowConditions :: "zod_schema \<Rightarrow> error + sc_value" where
  "getShowConditions fieldSchema =
     (case find_meta fieldSchema of
        Inl e \<Rightarrow> Inl e
      | Inr m \<Rightarrow>
          (case meta_showConditions m of
             ScArray cs \<Rightarrow> Inr (ScArray cs)
           | ScOther v \<Rightarrow> if truthy v then Inr (ScOther v) else Inr (ScArray [])))"

text \<open>
  The start of \<open>renderField\<close>: the field is rendered when \<open>isFieldVisible\<close> accepts what
  \<open>getShowConditions\<close> returned. A truthy value that is not an array has no \<open>every\<close>
  method, and calling it throws.
\<close>

definition field_shown :: "zod_schema \<Rightarrow> value_map \<Rightarrow> error + bool" where
  "field_shown fieldSchema watchedValues =
     (case getShowConditions fieldSchema of
        Inl e \<Rightarrow> Inl e
      | Inr (ScArray cs) \<Rightarrow> Inr (isFieldVisible cs watchedValues)
      | Inr (ScOther v) \<Rightarrow> Inl TypeError)"

section \<open>The localization provider (IntlProvider.tsx, i18n/en.ts)\<close>

text \<open>The English message table, \<open>messages['en']\<close>.\<close>

definition en :: "(string \<times> string) list" where
  "en =
    [(''app.title'', ''React Native Sandbox''),
     (''app.subtitle'', ''Automatic Form Generation with Conditional Fields via Meta''),
     (''form.submit'', ''Submit Form''),
     (''form.email.placeholder'', ''Enter your email''),
     (''form.password.placeholder'', ''Enter your password''),
     (''form.field.placeholder'', ''Enter {fieldName}''),
     (''form.select.placeholder'', ''Select {fieldName}''),
     (''field.name'', ''Name''),
     (''field.email'', ''Email''),
     (''field.password'', ''Password''),
     (''field.repeatPassword'', ''Repeat Password''),
     (''field.country'', ''Country''),
     (''field.gender'', ''Gender''),
     (''field.notifications'', ''Notifications''),
     (''field.newsletter'', ''Newsletter''),
     (''field.phoneNumber'', ''Phone Number''),
     (''field.address'', ''Address''),
     (''field.terms'', ''Terms and Conditions''),
     (''country.us'', ''United States''),
     (''country.ca'', ''Canada''),
     (''country.uk'', ''United Kingdom''),
     (''country.fr'', ''France''),
     (''country.de'', ''Germany''),
     (''gender.male'', ''Male''),
     (''gender.female'', ''Female''),
     (''gender.other'', ''Other''),
     (''gender.prefer-not-to-say'', ''Prefer not to say''),
     (''error.required'', ''This field is required''),
     (''error.invalid'', ''Invalid value''),
     (''error.name.min'', ''Name must be at least 2 characters''),
     (''error.email.invalid'', ''Please enter a valid email''),
     (''error.password.min'', ''Password must be at least 6 characters''),
     (''error.password.match'', ''Passwords don'' @ [CHR 0x27] @ ''t match''),
     (''error.password.length'', ''Password must be at least 6 characters''),
     (''error.terms.required'', ''You must accept the terms''),
     (''error.phoneNumber.required'', ''Phone number for US residents''),
     (''error.phoneNumber.length'', ''Phone number must be exactly 10 digits'')]"

text \<open>A message descriptor \<open>{ id: string, defaultMessage?: string }\<close>.\<close>

record descriptor =
  msg_id :: string
  defaultMessage :: "string option"

text \<open>The characters of the regular expression class \<open>\w\<close>: letters, digits, underscore.\<close>

definition is_word_char :: "char \<Rightarrow> bool" where
  "is_word_char c =
     (let n = (of_char c :: nat) in
      (48 \<le> n \<and> n \<le> 57) \<or> (65 \<le> n \<and> n \<le> 90) \<or> n = 95 \<or> (97 \<le> n \<and> n \<le> 122))"

text \<open>
  \<open>message.replace(/\{(\w+)\}/g, f)\<close>: scanning from the left, every \<open>{\<close> followed by one or
  more word characters and a \<open>}\<close> is a match; \<open>f\<close> gets the matched text and the key and its
  result replaces the match; the scan goes on after the match. Any other character is kept.
\<close>

function replace_placeholders :: "(string \<Rightarrow> string \<Rightarrow> string) \<Rightarrow> string \<Rightarrow> string" where
  "replace_placeholders f [] = []"
| "replace_placeholders f (c # cs) =
     (if c = CHR ''{'' \<and> takeWhile is_word_char cs \<noteq> [] then
        (case dropWhile is_word_char cs of
           [] \<Rightarrow> c # replace_placeholders f cs
         | d # rest \<Rightarrow>
             if d = CHR ''}'' then
               f (c # takeWhile is_word_char cs @ [d]) (takeWhile is_word_char cs)
                 @ replace_placeholders f rest
             else c # replace_placeholders f cs)
      else c # replace_placeholders f cs)"
  by pat_completeness auto
termination
proof (relation "measure (\<lambda>(f, s). length s)")
  show "wf (measure (\<lambda>(f, s). length s))" by simp
next
  fix f :: "string \<Rightarrow> string \<Rightarrow> string" and c :: char and cs :: string
  show "((f, cs), f, c # cs) \<in> measure (\<lambda>(f, s). length s)" by simp
next
  fix f :: "string \<Rightarrow> string \<Rightarrow> string" and c d :: char and cs rest :: string
  assume "dropWhile is_word_char cs = d # rest"
  then have "length (d # rest) \<le> length cs"
    using length_dropWhile_le [of is_word_char cs] by simp
  then show "((f, rest), f, c # cs) \<in> measure (\<lambda>(f, s). length s)" by simp
next
  fix f :: "string \<Rightarrow> string \<Rightarrow> string" and c :: char and cs :: string
  show "((f, cs), f, c # cs) \<in> measure (\<lambda>(f, s). length s)" by simp
next
  fix f :: "string \<Rightarrow> string \<Rightarrow> string" and c :: char and cs :: string
  show "((f, cs), f, c # cs) \<in> measure (\<lambda>(f, s). length s)" by simp
qed

text \<open>The callback \<open>(match, key) => values[key] || match\<close>; the result is used as a string.\<close>

definition substitute :: "value_map \<Rightarrow> string \<Rightarrow> string \<Rightarrow> string" where
  "substitute vals match key =
     (if truthy (read_field vals key) then to_string (read_field vals key) else match)"

text \<open>
  \<open>formatMessage(descriptor, values)\<close> for the table of the active locale. A key that is
  missing (or whose message is empty) gives \<open>descriptor.defaultMessage || descriptor.id\<close>.
\<close>

definition formatMessage ::
  "(string \<rightharpoonup> string) \<Rightarrow> descriptor \<Rightarrow> value_map option \<Rightarrow> string" where
  "formatMessage table descriptor vals =
     (case table (msg_id descriptor) of
        None \<Rightarrow>
          (case defaultMessage descriptor of
             None \<Rightarrow> msg_id descriptor
           | Some d \<Rightarrow> if d \<noteq> [] then d else msg_id descriptor)
      | Some message \<Rightarrow>
          if message = [] then
            (case defaultMessage descriptor of
               None \<Rightarrow> msg_id descriptor
             | Some d \<Rightarrow> if d \<noteq> [] then d else msg_id descriptor)
          else
            (case vals of
               Some vs \<Rightarrow> replace_placeholders (substitute vs) message
             | None \<Rightarrow> message))"

section \<open>The field configurations (ZodForm.tsx, the version with \<open>FieldConfig\<close>)\<close>

type_synonym translate = "descriptor \<Rightarrow> value_map option \<Rightarrow> string"

datatype field_type = TString | TNumber | TBoolean | TEnum

record option_entry =
  opt_label :: string
  opt_value :: js_value

record FieldConfig =
  name :: string
  type :: field_type
  label :: "string option"
  placeholder :: "string option"
  description :: "string option"
  options :: "option_entry list option"
  isRequired :: bool
  isVisible :: bool
  isPassword :: "bool option"
  showConditions :: "condition list option"

text \<open>\<open>toLowerCase\<close> and \<open>toUpperCase\<close> on the letters \<open>A\<close> to \<open>Z\<close> and \<open>a\<close> to \<open>z\<close>.\<close>

definition is_upper :: "char \<Rightarrow> bool" where
  "is_upper c = (65 \<le> (of_char c :: nat) \<and> (of_char c :: nat) \<le> 90)"

definition is_lower :: "char \<Rightarrow> bool" where
  "is_lower c = (97 \<le> (of_char c :: nat) \<and> (of_char c :: nat) \<le> 122)"

definition lower_char :: "char \<Rightarrow> char" where
  "lower_char c = (if is_upper c then char_of ((of_char c :: nat) + 32) else c)"

definition upper_char :: "char \<Rightarrow> char" where
  "upper_char c = (if is_lower c then char_of ((of_char c :: nat) - 32) else c)"

definition toLowerCase :: "string \<Rightarrow> string" where
  "toLowerCase s = map lower_char s"

text \<open>\<open>String(option).charAt(0).toUpperCase() + String(option).slice(1)\<close>.\<close>

fun capitalize :: "string \<Rightarrow> string" where
  "capitalize [] = []"
| "capitalize (c # cs) = upper_char c # cs"

text \<open>
  The default label:
  \<open>fieldName.split(/(?=[A-Z])/).join(' ').toLowerCase().replace(/^\w/, c => c.toUpperCase())\<close>.
  The split cuts before every capital letter except the first character.
\<close>

fun split_join :: "string \<Rightarrow> string" where
  "split_join [] = []"
| "split_join (c # cs) =
     c # concat (map (\<lambda>d. if is_upper d then [CHR '' '', d] else [d]) cs)"

fun upper_first_word_char :: "string \<Rightarrow> string" where
  "upper_first_word_char [] = []"
| "upper_first_word_char (c # cs) = (if is_word_char c then upper_char c # cs else c # cs)"

definition default_label :: "string \<Rightarrow> string" where
  "default_label fieldName = upper_first_word_char (toLowerCase (split_join fieldName))"

text \<open>The options of an enum field, each with its translated label.\<close>

definition enum_options :: "translate \<Rightarrow> string \<Rightarrow> js_value list \<Rightarrow> option_entry list" where
  "enum_options t fieldName opts =
     map (\<lambda>option.
            \<lparr>opt_label =
               t \<lparr>msg_id = fieldName @ ''.'' @ to_string option,
                  defaultMessage = Some (capitalize (to_string option))\<rparr> None,
             opt_value = option\<rparr>) opts"

definition field_placeholder :: "translate \<Rightarrow> string \<Rightarrow> string" where
  "field_placeholder t fieldName =
     t \<lparr>msg_id = ''form.field.placeholder'', defaultMessage = None\<rparr>
       (Some [''fieldName'' \<mapsto> JString fieldName])"

text \<open>
  The \<open>instanceof\<close> chain that sets \<open>type\<close>, \<open>isRequired\<close>, \<open>placeholder\<close>, \<open>isPassword\<close> and
  \<open>options\<close>. A node of no supported class leaves the configuration as it was created.
\<close>

definition typed_config :: "translate \<Rightarrow> string \<Rightarrow> zod_schema \<Rightarrow> FieldConfig \<Rightarrow> FieldConfig" where
  "typed_config t fieldName fieldSchema config =
     (case def fieldSchema of
        ZodString checks \<Rightarrow>
          (let config = config\<lparr>type := TString, isRequired := \<not> isOptional fieldSchema\<rparr> in
           if list_ex (\<lambda>check. check_kind check = ''email'') checks then
             config\<lparr>placeholder :=
               Some (t \<lparr>msg_id = ''form.email.placeholder'', defaultMessage = None\<rparr> None)\<rparr>
           else if str_includes (toLowerCase fieldName) ''password'' then
             config\<lparr>placeholder :=
               Some (t \<lparr>msg_id = ''form.password.placeholder'', defaultMessage = None\<rparr> None),
               isPassword := Some True\<rparr>
           else config\<lparr>placeholder := Some (field_placeholder t fieldName)\<rparr>)
      | ZodNumber \<Rightarrow>
          config\<lparr>type := TNumber, isRequired := \<not> isOptional fieldSchema,
            placeholder := Some (field_placeholder t fieldName)\<rparr>
      | ZodBoolean checks \<Rightarrow>
          config\<lparr>type := TBoolean, isRequired := False\<rparr>
      | ZodEnum opts \<Rightarrow>
          config\<lparr>type := TEnum, isRequired := \<not> isOptional fieldSchema,
            options := Some (enum_options t fieldName opts)\<rparr>
      | ZodOptional innerSchema \<Rightarrow>
          (case def innerSchema of
             ZodString checks \<Rightarrow>
               (let config = config\<lparr>type := TString, isRequired := False\<rparr> in
                if str_includes (toLowerCase fieldName) ''password'' then
                  config\<lparr>placeholder :=
                    Some (t \<lparr>msg_id = ''form.password.placeholder'', defaultMessage = None\<rparr> None),
                    isPassword := Some True\<rparr>
                else config\<lparr>placeholder := Some (field_placeholder t fieldName)\<rparr>)
           | ZodNumber \<Rightarrow>
               config\<lparr>type := TNumber, isRequired := False,
                 placeholder := Some (field_placeholder t fieldName)\<rparr>
           | ZodBoolean checks \<Rightarrow>
               config\<lparr>type := TBoolean, isRequired := False\<rparr>
           | ZodEnum opts \<Rightarrow>
               config\<lparr>type := TEnum, isRequired := False,
                 options := Some (enum_options t fieldName opts)\<rparr>
           | _ \<Rightarrow> config)
      | ZodOther \<Rightarrow> config)"

text \<open>
  One round of \<open>Object.entries(shape).forEach\<close>: create the configuration, set its type,
  read the metadata (\<open>showConditions\<close> is kept only when it is an array), set the label.
\<close>

definition field_config :: "translate \<Rightarrow> string \<Rightarrow> zod_schema \<Rightarrow> error + FieldConfig" where
  "field_config t fieldName fieldSchema =
     (let config =
            typed_config t fieldName fieldSchema
              \<lparr>name = fieldName, type = TString, label = None, placeholder = None,
               description = None, options = None, isRequired = False, isVisible = True,
               isPassword = None, showConditions = None\<rparr>
      in case find_meta fieldSchema of
           Inl e \<Rightarrow> Inl e
         | Inr m \<Rightarrow>
             (let config =
                    (case m of
                       MetaObject (ScArray cs) \<Rightarrow> config\<lparr>showConditions := Some cs\<rparr>
                     | _ \<Rightarrow> config)
              in Inr (config\<lparr>label :=
                        Some (t \<lparr>msg_id = ''field.'' @ fieldName,
                                 defaultMessage = Some (default_label fieldName)\<rparr> None)\<rparr>)))"

fun shape_configs :: "translate \<Rightarrow> (string \<times> zod_schema) list \<Rightarrow> error + FieldConfig list" where
  "shape_configs t [] = Inr []"
| "shape_configs t ((fieldName, fieldSchema) # rest) =
     (case field_config t fieldName fieldSchema of
        Inl e \<Rightarrow> Inl e
      | Inr config \<Rightarrow>
          (case shape_configs t rest of
             Inl e \<Rightarrow> Inl e
           | Inr configs \<Rightarrow> Inr (config # configs)))"

text \<open>
  \<open>isFieldVisible(config)\<close> of the version with \<open>FieldConfig\<close>: no \<open>showConditions\<close> or an
  empty list is visible, otherwise every condition must hold.
\<close>

definition isFieldVisible_config :: "FieldConfig \<Rightarrow> value_map \<Rightarrow> bool" where
  "isFieldVisible_config config watchedValues =
     (case showConditions config of
        None \<Rightarrow> True
      | Some cs \<Rightarrow>
          if length cs = 0 then True
          else list_all (condition_holds watchedValues) cs)"

section \<open>The validators (validators.ts)\<close>

text \<open>
  \<open>PhoneValidator.checkPhoneNumber.validation(phoneNumber)\<close>:
  \<open>phoneNumber && phoneNumber.length === 10\<close>. Only a string has a \<open>length\<close> here.
\<close>

fun PhoneValidator_validation :: "js_value \<Rightarrow> bool" where
  "PhoneValidator_validation (JString s) = (truthy (JString s) \<and> length s = 10)"
| "PhoneValidator_validation v = False"

definition PhoneValidator_errMessage :: "translate \<Rightarrow> string" where
  "PhoneValidator_errMessage t = t \<lparr>msg_id = ''error.phoneNumber.length'', defaultMessage = None\<rparr> None"

text \<open>
  \<open>PasswordValidator.checkPassword.validation(password)\<close>:
  \<open>password && password.length >= 6\<close>.
\<close>

fun PasswordValidator_validation :: "js_value \<Rightarrow> bool" where
  "PasswordValidator_validation (JString s) = (truthy (JString s) \<and> length s \<ge> 6)"
| "PasswordValidator_validation v = False"

definition PasswordValidator_errMessage :: "translate \<Rightarrow> string" where
  "PasswordValidator_errMessage t = t \<lparr>msg_id = ''error.password.length'', defaultMessage = None\<rparr> None"

section \<open>The form schema of the application (App.tsx)\<close>

text \<open>
  A refinement of the whole object: a predicate over the parsed values, a message and the
  path of the field the message is attached to. A predicate may call \<open>form.trigger(name)\<close>;
  the names requested so far are threaded through as a list.
\<close>

record refinement =
  check :: "value_map \<Rightarrow> string list \<Rightarrow> bool \<times> string list"
  message :: string
  path :: "string list"

datatype form_schema =
    ZodObject (shape: "(string \<times> zod_schema) list") (refinements: "refinement list")
  | ZodNonObject

text \<open>The \<open>form\<close> argument of \<open>createFormSchema\<close>: \<open>null\<close> until the form instance exists.\<close>

datatype form_ref = FormNull | FormInstance

definition checkTermsAccepted :: "js_value \<Rightarrow> bool" where
  "checkTermsAccepted val = strict_eq val (JBool True)"

definition checkPasswordMatch :: "value_map \<Rightarrow> bool" where
  "checkPasswordMatch data = PasswordValidator_validation (read_field data ''password'')"

text \<open>\<open>form?.trigger('phoneNumber')\<close> records the request when there is a form.\<close>

definition trigger :: "form_ref \<Rightarrow> string \<Rightarrow> string list \<Rightarrow> string list" where
  "trigger form fieldName requested =
     (case form of FormNull \<Rightarrow> requested | FormInstance \<Rightarrow> requested @ [fieldName])"

definition checkPhoneNumberLength ::
  "form_ref \<Rightarrow> value_map \<Rightarrow> string list \<Rightarrow> bool \<times> string list" where
  "checkPhoneNumberLength form data requested =
     (if \<not> strict_eq (read_field data ''country'') (JString ''us'') then (True, requested)
      else
        (let requested = trigger form ''phoneNumber'' requested
         in (PhoneValidator_validation (read_field data ''phoneNumber''), requested)))"

text \<open>
  A node as zod builds it: \<open>isOptional()\<close> is false and \<open>meta()\<close> is \<open>undefined\<close> unless the
  node is an \<open>optional\<close> wrapper or metadata was attached with \<open>.meta(...)\<close>.
\<close>

definition plain :: "zod_def \<Rightarrow> zod_schema" where
  "plain d = ZodSchema d False (Inr MetaUndefined)"

definition with_meta :: "zod_def \<Rightarrow> condition list \<Rightarrow> zod_schema" where
  "with_meta d cs = ZodSchema d False (Inr (MetaObject (ScArray cs)))"

definition optional :: "zod_schema \<Rightarrow> zod_schema" where
  "optional inner = ZodSchema (ZodOptional inner) True (Inr MetaUndefined)"

definition createFormSchema :: "translate \<Rightarrow> form_ref \<Rightarrow> form_schema" where
  "createFormSchema t form =
     ZodObject
       [(''name'',
           plain (ZodString
             [MinLength 2 (t \<lparr>msg_id = ''error.name.min'', defaultMessage = None\<rparr> None)])),
        (''email'',
           plain (ZodString
             [Email (t \<lparr>msg_id = ''error.email.invalid'', defaultMessage = None\<rparr> None)])),
        (''country'',
           plain (ZodEnum
             [JString ''us'', JString ''ca'', JString ''uk'', JString ''fr'', JString ''de''])),
        (''gender'',
           plain (ZodEnum
             [JString ''male'', JString ''female'', JString ''other'',
              JString ''prefer-not-to-say''])),
        (''notifications'', plain (ZodBoolean [])),
        (''password'',
           plain (ZodString
             [MinLength 6 (t \<lparr>msg_id = ''error.password.min'', defaultMessage = None\<rparr> None)])),
        (''repeatPassword'',
           plain (ZodString
             [MinLength 6 (t \<lparr>msg_id = ''error.password.min'', defaultMessage = None\<rparr> None)])),
        (''newsletter'',
           optional (with_meta (ZodBoolean [])
             [\<lparr>field = ''notifications'', operator = ''equals'', cond_value = JBool True\<rparr>])),
        (''phoneNumber'',
           optional (with_meta (ZodString [])
             [\<lparr>field = ''country'', operator = ''equals'', cond_value = JString ''us''\<rparr>])),
        (''address'',
           optional (with_meta (ZodString [])
             [\<lparr>field = ''country'', operator = ''notEquals'', cond_value = JString ''us''\<rparr>])),
        (''terms'',
           plain (ZodBoolean
             [Refine checkTermsAccepted
                (t \<lparr>msg_id = ''error.terms.required'', defaultMessage = None\<rparr> None)]))]
       [\<lparr>check = (\<lambda>data requested. (checkPasswordMatch data, requested)),
         message = PasswordValidator_errMessage t,
         path = [''repeatPassword'']\<rparr>,
        \<lparr>check = checkPhoneNumberLength form,
         message = PhoneValidator_errMessage t,
         path = [''phoneNumber'']\<rparr>]"

text \<open>\<open>fieldConfigs\<close>: the configurations of the direct entries of an object schema.\<close>

definition fieldConfigs :: "translate \<Rightarrow> form_schema \<Rightarrow> error + FieldConfig list" where
  "fieldConfigs t schema =
     (case schema of
        ZodObject sh rs \<Rightarrow> shape_configs t sh
      | ZodNonObject \<Rightarrow> Inr [])"

subsection \<open>Running the checks of the schema\<close>

text \<open>
  What zod reports for the declared checks of a field on a value of the field's type: the
  message of every check that fails, in order. The verdict of zod's e-mail pattern is a
  parameter.
\<close>

fun failed_check :: "(string \<Rightarrow> bool) \<Rightarrow> zod_check \<Rightarrow> js_value \<Rightarrow> string option" where
  "failed_check email_ok (MinLength n m) (JString s) = (if length s < n then Some m else None)"
| "failed_check email_ok (Email m) (JString s) = (if email_ok s then None else Some m)"
| "failed_check email_ok (Refine p m) v = (if p v then None else Some m)"
| "failed_check email_ok c v = None"

definition field_checks :: "form_schema \<Rightarrow> string \<Rightarrow> zod_check list" where
  "field_checks schema fieldName =
     (case schema of
        ZodObject sh rs \<Rightarrow>
          (case map_of sh fieldName of
             Some (ZodSchema (ZodString checks) opt m) \<Rightarrow> checks
           | Some (ZodSchema (ZodBoolean checks) opt m) \<Rightarrow> checks
           | _ \<Rightarrow> [])
      | ZodNonObject \<Rightarrow> [])"

definition field_errors :: "(string \<Rightarrow> bool) \<Rightarrow> form_schema \<Rightarrow> value_map \<Rightarrow> string \<Rightarrow> string list" where
  "field_errors email_ok schema data fieldName =
     List.map_filter (\<lambda>c. failed_check email_ok c (read_field data fieldName))
       (field_checks schema fieldName)"

text \<open>
  The refinements of the object, run in order on the parsed values: the result of each
  predicate with its message and path, and the re-validations requested on the way.
\<close>

fun run_refinements ::
  "refinement list \<Rightarrow> value_map \<Rightarrow> string list \<Rightarrow> (bool \<times> string \<times> string list) list \<times> string list" where
  "run_refinements [] data requested = ([], requested)"
| "run_refinements (r # rs) data requested =
     (let (ok, requested1) = check r data requested;
          (results, requested2) = run_refinements rs data requested1
      in ((ok, message r, path r) # results, requested2))"

text \<open>The messages the refinements attach to a field: those of the failing ones at its path.\<close>

definition refinement_errors :: "form_schema \<Rightarrow> value_map \<Rightarrow> string \<Rightarrow> string list" where
  "refinement_errors schema data fieldName =
     (case schema of
        ZodObject sh rs \<Rightarrow>
          map (\<lambda>(ok, m, p). m)
            (filter (\<lambda>(ok, m, p). \<not> ok \<and> p = [fieldName]) (fst (run_refinements rs data [])))
      | ZodNonObject \<Rightarrow> [])"

text \<open>The \<open>defaultValues\<close> the application gives the form.\<close>

definition defaultValues :: value_map where
  "defaultValues =
     [''name'' \<mapsto> JString ''Robin Lebhar'',
      ''email'' \<mapsto> JString ''robin@lebhar.com'',
      ''country'' \<mapsto> JString ''fr'',
      ''gender'' \<mapsto> JString ''male'',
      ''notifications'' \<mapsto> JBool False,
      ''password'' \<mapsto> JString ''123456'',
      ''repeatPassword'' \<mapsto> JString ''123456'',
      ''address'' \<mapsto> JString ''123 Main St, Anytown, USA'',
      ''terms'' \<mapsto> JBool False,
      ''phoneNumber'' \<mapsto> JString []]"

section \<open>Notions used to state the properties\<close>

text \<open>
  A node has no metadata to give when its \<open>meta()\<close> throws or returns \<open>undefined\<close> (or
  \<open>null\<close>).
\<close>

definition no_metadata :: "zod_schema \<Rightarrow> bool" where
  "no_metadata s = (case meta s of Inl e \<Rightarrow> True | Inr m \<Rightarrow> \<not> meta_truthy m)"

section \<open>Properties of the visibility evaluator\<close>

lemma str_includes_sublist: "str_includes s t = sublist t s"
  by (induction s) (auto simp: sublist_Cons_right)

lemma isFieldVisible_all:
  "isFieldVisible rule vs = (\<forall>c \<in> set rule. condition_holds vs c)"
  by (cases rule) (simp_all add: isFieldVisible_def list_all_iff)

lemma isFieldVisible_config_eq:
  "isFieldVisible_config cfg vs =
     isFieldVisible (case showConditions cfg of None \<Rightarrow> [] | Some cs \<Rightarrow> cs) vs"
  by (simp add: isFieldVisible_config_def isFieldVisible_def split: option.splits)

lemma strict_eq_bool: "strict_eq v (JBool b) = (v = JBool b)"
  by (auto simp: strict_eq_def)

lemma holds_true: "operator c = ''true'' \<Longrightarrow> condition_holds vs c = (read_field vs (field c) = JBool True)"
  by (simp add: condition_holds_def strict_eq_bool)

lemma holds_false: "operator c = ''false'' \<Longrightarrow> condition_holds vs c = (read_field vs (field c) = JBool False)"
  by (simp add: condition_holds_def strict_eq_bool)

lemma holds_equals: "operator c = ''equals'' \<Longrightarrow> condition_holds vs c = strict_eq (read_field vs (field c)) (cond_value c)"
  by (simp add: condition_holds_def)

lemma holds_notEquals: "operator c = ''notEquals'' \<Longrightarrow> condition_holds vs c = (\<not> strict_eq (read_field vs (field c)) (cond_value c))"
  by (simp add: condition_holds_def)

lemma holds_contains: "operator c = ''contains'' \<Longrightarrow>
   condition_holds vs c = (\<exists>s. read_field vs (field c) = JString s \<and> sublist (to_string (cond_value c)) s)"
  by (simp add: condition_holds_def str_includes_sublist split: js_value.splits)

lemma holds_notContains: "operator c = ''notContains'' \<Longrightarrow>
   condition_holds vs c = (\<exists>s. read_field vs (field c) = JString s \<and> \<not> sublist (to_string (cond_value c)) s)"
  by (simp add: condition_holds_def str_includes_sublist split: js_value.splits)

lemma holds_default: "operator c \<notin> set case_labels \<Longrightarrow> condition_holds vs c"
  by (simp add: condition_holds_def case_labels_def)

lemma holds_agree:
  "read_field v1 (field c) = read_field v2 (field c) \<Longrightarrow> condition_holds v1 c = condition_holds v2 c"
  by (simp add: condition_holds_def)

text \<open>
  Claim C1, as the code has it. The boolean operators of the evaluator are written \<open>true\<close> and
  \<open>false\<close>: a condition with operator \<open>true\<close> makes its field visible exactly when the
  referenced value is the boolean \<open>true\<close>, one with operator \<open>false\<close> exactly when it is the
  boolean \<open>false\<close>. Both are \<open>case\<close> labels of the \<open>switch\<close>. The strings \<open>isTrue\<close> and
  \<open>isFalse\<close> are not: a condition written with one of them falls to the \<open>default\<close> branch and
  is satisfied whatever the value is.
\<close>

theorem true_false_operators:
  "(operator c = ''true'' \<longrightarrow>
      isFieldVisible [c] vs = (read_field vs (field c) = JBool True))
   \<and> (operator c = ''false'' \<longrightarrow>
      isFieldVisible [c] vs = (read_field vs (field c) = JBool False))
   \<and> ''true'' \<in> set case_labels \<and> ''false'' \<in> set case_labels
   \<and> ''isTrue'' \<notin> set case_labels \<and> ''isFalse'' \<notin> set case_labels
   \<and> (operator c = ''isTrue'' \<or> operator c = ''isFalse'' \<longrightarrow> isFieldVisible [c] vs)"
proof -
  have labels: "''true'' \<in> set case_labels" "''false'' \<in> set case_labels"
    "''isTrue'' \<notin> set case_labels" "''isFalse'' \<notin> set case_labels"
    by (simp_all add: case_labels_def)
  have t: "operator c = ''true'' \<longrightarrow>
      isFieldVisible [c] vs = (read_field vs (field c) = JBool True)"
    by (simp add: isFieldVisible_all holds_true)
  have f: "operator c = ''false'' \<longrightarrow>
      isFieldVisible [c] vs = (read_field vs (field c) = JBool False)"
    by (simp add: isFieldVisible_all holds_false)
  have d: "operator c = ''isTrue'' \<or> operator c = ''isFalse'' \<longrightarrow> isFieldVisible [c] vs"
    using labels(3,4) by (auto simp: isFieldVisible_all intro: holds_default)
  from labels t f d show ?thesis by blast
qed

text \<open>The operators \<open>true\<close> and \<open>false\<close> on a switch that is on, holds a text, is off, is unset.\<close>

theorem true_false_operators_witness:
  "isFieldVisible [\<lparr>field = ''hasAddress'', operator = ''true'', cond_value = JUndefined\<rparr>]
     [''hasAddress'' \<mapsto> JBool True]
   \<and> \<not> isFieldVisible [\<lparr>field = ''hasAddress'', operator = ''true'', cond_value = JUndefined\<rparr>]
     [''hasAddress'' \<mapsto> JString ''yes'']
   \<and> isFieldVisible [\<lparr>field = ''hasAddress'', operator = ''false'', cond_value = JUndefined\<rparr>]
     [''hasAddress'' \<mapsto> JBool False]
   \<and> \<not> isFieldVisible [\<lparr>field = ''hasAddress'', operator = ''false'', cond_value = JUndefined\<rparr>]
     Map.empty"
  using
    true_false_operators [of "\<lparr>field = ''hasAddress'', operator = ''true'', cond_value = JUndefined\<rparr>"
      "[''hasAddress'' \<mapsto> JBool True]"]
    true_false_operators [of "\<lparr>field = ''hasAddress'', operator = ''true'', cond_value = JUndefined\<rparr>"
      "[''hasAddress'' \<mapsto> JString ''yes'']"]
    true_false_operators [of "\<lparr>field = ''hasAddress'', operator = ''false'', cond_value = JUndefined\<rparr>"
      "[''hasAddress'' \<mapsto> JBool False]"]
    true_false_operators [of "\<lparr>field = ''hasAddress'', operator = ''false'', cond_value = JUndefined\<rparr>"
      "Map.empty"]
  by (simp add: read_field_def)

text \<open>
  Claim C1 as stated fails: with the operator written \<open>isTrue\<close> the field is visible although
  the referenced value is the boolean \<open>false\<close>.
\<close>

theorem isTrue_operator_counterexample:
  "isFieldVisible [\<lparr>field = ''hasAddress'', operator = ''isTrue'', cond_value = JUndefined\<rparr>]
     [''hasAddress'' \<mapsto> JBool False]
   \<and> read_field [''hasAddress'' \<mapsto> JBool False] ''hasAddress'' \<noteq> JBool True"
  by (simp add: isFieldVisible_def condition_holds_def read_field_def)

text \<open>
  Claim C5. A field with an empty rule (or, in the version with \<open>FieldConfig\<close>, with no rule)
  is visible. A field with a non-empty rule is visible exactly when every condition of the rule
  holds. \<open>equals\<close> holds exactly when the referenced value is strictly equal to the condition
  value, \<open>notEquals\<close> exactly when it is not; \<open>contains\<close> and \<open>notContains\<close> hold only when
  the referenced value is a string, which contains, respectively does not contain, the
  condition value (as a string) as a contiguous part.
\<close>

theorem visibility_rule_semantics:
  "isFieldVisible [] vs
   \<and> isFieldVisible_config (cfg\<lparr>showConditions := None\<rparr>) vs
   \<and> isFieldVisible_config (cfg\<lparr>showConditions := Some []\<rparr>) vs
   \<and> (rule \<noteq> [] \<longrightarrow>
        isFieldVisible rule vs = (\<forall>c \<in> set rule. condition_holds vs c)
        \<and> isFieldVisible_config (cfg\<lparr>showConditions := Some rule\<rparr>) vs
            = (\<forall>c \<in> set rule. condition_holds vs c))
   \<and> (operator c = ''equals'' \<longrightarrow>
        condition_holds vs c = strict_eq (read_field vs (field c)) (cond_value c))
   \<and> (operator c = ''notEquals'' \<longrightarrow>
        condition_holds vs c = (\<not> strict_eq (read_field vs (field c)) (cond_value c)))
   \<and> (operator c = ''contains'' \<longrightarrow>
        condition_holds vs c =
          (\<exists>s. read_field vs (field c) = JString s \<and> sublist (to_string (cond_value c)) s))
   \<and> (operator c = ''notContains'' \<longrightarrow>
        condition_holds vs c =
          (\<exists>s. read_field vs (field c) = JString s \<and> \<not> sublist (to_string (cond_value c)) s))"
proof -
  have e: "isFieldVisible [] vs" "isFieldVisible_config (cfg\<lparr>showConditions := None\<rparr>) vs"
    "isFieldVisible_config (cfg\<lparr>showConditions := Some []\<rparr>) vs"
    by (simp_all add: isFieldVisible_all isFieldVisible_config_eq)
  have n: "rule \<noteq> [] \<longrightarrow>
        isFieldVisible rule vs = (\<forall>c \<in> set rule. condition_holds vs c)
        \<and> isFieldVisible_config (cfg\<lparr>showConditions := Some rule\<rparr>) vs
            = (\<forall>c \<in> set rule. condition_holds vs c)"
    by (simp add: isFieldVisible_all isFieldVisible_config_eq)
  from e n holds_equals [of c vs] holds_notEquals [of c vs] holds_contains [of c vs]
    holds_notContains [of c vs]
  show ?thesis by blast
qed

text \<open>A rule of two conditions on the values of the demo form, satisfied and not.\<close>

theorem visibility_rule_semantics_witness:
  "isFieldVisible
     [\<lparr>field = ''country'', operator = ''equals'', cond_value = JString ''us''\<rparr>,
      \<lparr>field = ''email'', operator = ''contains'', cond_value = JString ''@''\<rparr>]
     [''country'' \<mapsto> JString ''us'', ''email'' \<mapsto> JString ''robin@lebhar.com'']
   \<and> \<not> isFieldVisible
     [\<lparr>field = ''country'', operator = ''equals'', cond_value = JString ''us''\<rparr>,
      \<lparr>field = ''email'', operator = ''contains'', cond_value = JString ''@''\<rparr>]
     [''country'' \<mapsto> JString ''us'', ''email'' \<mapsto> JString ''robin'']"
proof -
  let ?c1 = "\<lparr>field = ''country'', operator = ''equals'', cond_value = JString ''us''\<rparr>"
  let ?c2 = "\<lparr>field = ''email'', operator = ''contains'', cond_value = JString ''@''\<rparr>"
  let ?v1 = "[''country'' \<mapsto> JString ''us'', ''email'' \<mapsto> JString ''robin@lebhar.com'']"
  let ?v2 = "[''country'' \<mapsto> JString ''us'', ''email'' \<mapsto> JString ''robin'']"
  have s1: "sublist ''@'' ''robin@lebhar.com''"
    by (simp add: str_includes_sublist [symmetric])
  have s2: "\<not> sublist ''@'' ''robin''"
    by (simp add: str_includes_sublist [symmetric])
  show ?thesis
    using visibility_rule_semantics [of ?v1 undefined "[?c1, ?c2]" ?c1]
      visibility_rule_semantics [of ?v1 undefined "[?c1, ?c2]" ?c2]
      visibility_rule_semantics [of ?v2 undefined "[?c1, ?c2]" ?c1]
      visibility_rule_semantics [of ?v2 undefined "[?c1, ?c2]" ?c2]
      s1 s2
    by (simp add: read_field_def strict_eq_def)
qed

text \<open>
  Claim C6. A condition whose operator is none of the \<open>case\<close> labels is satisfied, so a rule
  made only of such conditions shows the field for every value map.
\<close>

theorem unknown_operator_fail_open:
  "(operator c \<notin> set case_labels \<longrightarrow> condition_holds vs c)
   \<and> ((\<forall>c \<in> set rule. operator c \<notin> set case_labels) \<longrightarrow>
        isFieldVisible rule vs \<and> isFieldVisible_config (cfg\<lparr>showConditions := Some rule\<rparr>) vs)"
  by (simp add: isFieldVisible_all isFieldVisible_config_eq holds_default)

text \<open>The operators \<open>>=\<close> and \<open>startsWith\<close> are not known: the field is shown.\<close>

theorem unknown_operator_fail_open_witness:
  "isFieldVisible
     [\<lparr>field = ''age'', operator = ''>='', cond_value = JNumber 18\<rparr>,
      \<lparr>field = ''country'', operator = ''startsWith'', cond_value = JString ''u''\<rparr>]
     [''age'' \<mapsto> JNumber 3, ''country'' \<mapsto> JString ''fr'']"
  using unknown_operator_fail_open [where rule =
     "[\<lparr>field = ''age'', operator = ''>='', cond_value = JNumber 18\<rparr>,
       \<lparr>field = ''country'', operator = ''startsWith'', cond_value = JString ''u''\<rparr>]"
     and vs = "[''age'' \<mapsto> JNumber 3, ''country'' \<mapsto> JString ''fr'']"]
  by (simp add: case_labels_def)

text \<open>
  Claim C9. The evaluator reads nothing but the rule and the value map, and of the value map
  only the fields the rule names: two value maps that agree on these fields (in particular two
  equal value maps) give the same visibility.
\<close>

theorem visibility_depends_on_read_fields_only:
  "(\<forall>c \<in> set rule. read_field v1 (field c) = read_field v2 (field c)) \<longrightarrow>
     isFieldVisible rule v1 = isFieldVisible rule v2
     \<and> isFieldVisible_config (cfg\<lparr>showConditions := Some rule\<rparr>) v1
         = isFieldVisible_config (cfg\<lparr>showConditions := Some rule\<rparr>) v2"
proof
  assume agree: "\<forall>c \<in> set rule. read_field v1 (field c) = read_field v2 (field c)"
  have "(\<forall>c \<in> set rule. condition_holds v1 c) = (\<forall>c \<in> set rule. condition_holds v2 c)"
  proof (rule ball_cong)
    fix c assume "c \<in> set rule"
    with agree have "read_field v1 (field c) = read_field v2 (field c)" by blast
    then show "condition_holds v1 c = condition_holds v2 c" by (rule holds_agree)
  qed simp
  then show "isFieldVisible rule v1 = isFieldVisible rule v2
     \<and> isFieldVisible_config (cfg\<lparr>showConditions := Some rule\<rparr>) v1
         = isFieldVisible_config (cfg\<lparr>showConditions := Some rule\<rparr>) v2"
    by (simp add: isFieldVisible_all isFieldVisible_config_eq)
qed

text \<open>Two value maps that differ in a field the rule does not read.\<close>

theorem visibility_depends_on_read_fields_only_witness:
  "isFieldVisible [\<lparr>field = ''country'', operator = ''equals'', cond_value = JString ''us''\<rparr>]
      [''country'' \<mapsto> JString ''us'', ''name'' \<mapsto> JString ''a'']
   = isFieldVisible [\<lparr>field = ''country'', operator = ''equals'', cond_value = JString ''us''\<rparr>]
      [''name'' \<mapsto> JString ''b'', ''country'' \<mapsto> JString ''us'']"
  using visibility_depends_on_read_fields_only
    [where rule = "[\<lparr>field = ''country'', operator = ''equals'', cond_value = JString ''us''\<rparr>]"
       and ?v1.0 = "[''country'' \<mapsto> JString ''us'', ''name'' \<mapsto> JString ''a'']"
       and ?v2.0 = "[''name'' \<mapsto> JString ''b'', ''country'' \<mapsto> JString ''us'']"]
  by (simp add: read_field_def)

section \<open>Properties of the schema compiler\<close>

lemma find_meta_total: "\<exists>m. find_meta s = Inr m"
  by (cases s) (auto simp: find_meta_def try_meta_def split: sum.splits zod_def.splits)

lemma find_meta_none:
  assumes "no_metadata s" and "\<forall>inner. def s = ZodOptional inner \<longrightarrow> no_metadata inner"
  shows "\<exists>m. find_meta s = Inr m \<and> \<not> meta_truthy m"
proof (cases "meta s")
  case (Inl e)
  then have t: "try_meta s MetaNull = Inr MetaNull" by (simp add: try_meta_def)
  show ?thesis
  proof (cases "def s")
    case (ZodOptional inner)
    with assms(2) have "no_metadata inner" by simp
    then have "\<exists>m. try_meta inner MetaNull = Inr m \<and> \<not> meta_truthy m"
      by (auto simp: no_metadata_def try_meta_def split: sum.splits)
    with t ZodOptional show ?thesis by (simp add: find_meta_def)
  qed (simp_all add: find_meta_def t)
next
  case (Inr m)
  with assms(1) have nt: "\<not> meta_truthy m" by (simp add: no_metadata_def)
  from Inr have t: "try_meta s MetaNull = Inr m" by (simp add: try_meta_def)
  show ?thesis
  proof (cases "def s")
    case (ZodOptional inner)
    with assms(2) have "no_metadata inner" by simp
    then have "\<exists>m'. try_meta inner m = Inr m' \<and> \<not> meta_truthy m'"
      using nt by (auto simp: no_metadata_def try_meta_def split: sum.splits)
    with t nt ZodOptional show ?thesis by (simp add: find_meta_def)
  qed (simp_all add: find_meta_def t nt)
qed

lemma not_truthy_showConditions: "\<not> meta_truthy m \<Longrightarrow> meta_showConditions m = ScOther JUndefined"
  by (cases m) simp_all

lemma getShowConditions_total: "\<exists>r. getShowConditions s = Inr r"
proof -
  obtain m where "find_meta s = Inr m" using find_meta_total by blast
  then show ?thesis by (simp add: getShowConditions_def split: sc_value.splits)
qed

lemma field_config_total: "\<exists>cfg. field_config t n s = Inr cfg"
proof -
  obtain m where "find_meta s = Inr m" using find_meta_total by blast
  then show ?thesis by (simp add: field_config_def Let_def)
qed

lemma showConditions_typed_config: "showConditions (typed_config t n s cfg) = showConditions cfg"
  by (simp add: typed_config_def Let_def split: zod_def.splits)

lemma isRequired_typed_config:
  "\<not> isRequired cfg0 \<Longrightarrow>
   isRequired (typed_config t n s cfg0) =
     (case def s of
        ZodString checks \<Rightarrow> \<not> isOptional s
      | ZodNumber \<Rightarrow> \<not> isOptional s
      | ZodEnum opts \<Rightarrow> \<not> isOptional s
      | ZodBoolean checks \<Rightarrow> False
      | ZodOptional inner \<Rightarrow> False
      | ZodOther \<Rightarrow> False)"
  by (simp add: typed_config_def Let_def split: zod_def.splits)

lemma name_typed_config: "name (typed_config t n s cfg0) = name cfg0"
  by (simp add: typed_config_def Let_def split: zod_def.splits)

lemma field_config_required:
  "\<exists>cfg. field_config t n s = Inr cfg \<and> name cfg = n
     \<and> isRequired cfg =
         (case def s of
            ZodString checks \<Rightarrow> \<not> isOptional s
          | ZodNumber \<Rightarrow> \<not> isOptional s
          | ZodEnum opts \<Rightarrow> \<not> isOptional s
          | ZodBoolean checks \<Rightarrow> False
          | ZodOptional inner \<Rightarrow> False
          | ZodOther \<Rightarrow> False)"
proof -
  obtain m where m: "find_meta s = Inr m" using find_meta_total by blast
  then show ?thesis
    by (cases m; cases "meta_showConditions m")
       (simp_all add: field_config_def Let_def isRequired_typed_config name_typed_config
          split: sc_value.splits)
qed

text \<open>
  Claim C7. Reading the \<open>showConditions\<close> metadata never raises, whatever the node is and
  whether its \<open>meta()\<close> throws or not: \<open>getShowConditions\<close> and the compilation of a field
  always return. When the node has no metadata to give, and for an optional node neither
  has the wrapped inner node, the condition list is empty (in the version with
  \<open>FieldConfig\<close>: no \<open>showConditions\<close> is set), and the field is visible for every value map.
\<close>

theorem showConditions_extraction_total:
  "(\<exists>r. getShowConditions s = Inr r)
   \<and> (\<exists>cfg. field_config t n s = Inr cfg)
   \<and> (no_metadata s \<and> (\<forall>inner. def s = ZodOptional inner \<longrightarrow> no_metadata inner) \<longrightarrow>
        getShowConditions s = Inr (ScArray [])
        \<and> field_shown s vs = Inr True
        \<and> (\<exists>cfg. field_config t n s = Inr cfg \<and> showConditions cfg = None
              \<and> isFieldVisible_config cfg vs))"
proof -
  have absent: "getShowConditions s = Inr (ScArray [])
        \<and> field_shown s vs = Inr True
        \<and> (\<exists>cfg. field_config t n s = Inr cfg \<and> showConditions cfg = None
              \<and> isFieldVisible_config cfg vs)"
    if a: "no_metadata s" "\<forall>inner. def s = ZodOptional inner \<longrightarrow> no_metadata inner"
  proof -
    from find_meta_none [OF a] obtain m where m: "find_meta s = Inr m" "\<not> meta_truthy m"
      by blast
    from m have g: "getShowConditions s = Inr (ScArray [])"
      by (simp add: getShowConditions_def not_truthy_showConditions)
    then have f: "field_shown s vs = Inr True"
      by (simp add: field_shown_def isFieldVisible_def)
    from m have "\<exists>cfg. field_config t n s = Inr cfg \<and> showConditions cfg = None"
      by (cases m) (simp_all add: field_config_def Let_def showConditions_typed_config)
    then have "\<exists>cfg. field_config t n s = Inr cfg \<and> showConditions cfg = None
              \<and> isFieldVisible_config cfg vs"
      by (auto simp: isFieldVisible_config_def)
    with g f show ?thesis by blast
  qed
  with getShowConditions_total [of s] field_config_total [of t n s] show ?thesis by blast
qed

text \<open>An optional text field and a number field whose \<open>meta()\<close> throws.\<close>

theorem showConditions_extraction_total_witness:
  "getShowConditions (ZodSchema (ZodOptional (ZodSchema (ZodString []) False (Inl TypeError)))
      True (Inr MetaUndefined)) = Inr (ScArray [])
   \<and> field_shown (ZodSchema (ZodOptional (ZodSchema (ZodString []) False (Inl TypeError)))
      True (Inr MetaUndefined)) [''country'' \<mapsto> JString ''fr''] = Inr True
   \<and> getShowConditions (ZodSchema ZodNumber False (Inl TypeError)) = Inr (ScArray [])"
  using showConditions_extraction_total
    [where s = "ZodSchema (ZodOptional (ZodSchema (ZodString []) False (Inl TypeError)))
      True (Inr MetaUndefined)" and vs = "[''country'' \<mapsto> JString ''fr'']"]
    showConditions_extraction_total
    [where s = "ZodSchema ZodNumber False (Inl TypeError)"]
  by (simp add: no_metadata_def)

lemma fieldConfigs_required:
  "\<exists>cfgs. fieldConfigs t (ZodObject sh rs) = Inr cfgs
     \<and> map (\<lambda>cfg. (name cfg, isRequired cfg)) cfgs =
         map (\<lambda>(n, s). (n,
           case def s of
             ZodString checks \<Rightarrow> \<not> isOptional s
           | ZodNumber \<Rightarrow> \<not> isOptional s
           | ZodEnum opts \<Rightarrow> \<not> isOptional s
           | ZodBoolean checks \<Rightarrow> False
           | ZodOptional inner \<Rightarrow> False
           | ZodOther \<Rightarrow> False)) sh"
proof -
  have "\<exists>cfgs. shape_configs t sh = Inr cfgs
     \<and> map (\<lambda>cfg. (name cfg, isRequired cfg)) cfgs =
         map (\<lambda>(n, s). (n,
           case def s of
             ZodString checks \<Rightarrow> \<not> isOptional s
           | ZodNumber \<Rightarrow> \<not> isOptional s
           | ZodEnum opts \<Rightarrow> \<not> isOptional s
           | ZodBoolean checks \<Rightarrow> False
           | ZodOptional inner \<Rightarrow> False
           | ZodOther \<Rightarrow> False)) sh"
  proof (induction sh)
    case Nil
    show ?case by simp
  next
    case (Cons entry sh)
    obtain n s where entry: "entry = (n, s)" by (cases entry)
    from field_config_required [of t n s] obtain cfg where
      cfg: "field_config t n s = Inr cfg" "name cfg = n"
        "isRequired cfg =
           (case def s of
              ZodString checks \<Rightarrow> \<not> isOptional s
            | ZodNumber \<Rightarrow> \<not> isOptional s
            | ZodEnum opts \<Rightarrow> \<not> isOptional s
            | ZodBoolean checks \<Rightarrow> False
            | ZodOptional inner \<Rightarrow> False
            | ZodOther \<Rightarrow> False)"
      by blast
    from Cons.IH obtain cfgs where
      cfgs: "shape_configs t sh = Inr cfgs"
        "map (\<lambda>cfg. (name cfg, isRequired cfg)) cfgs =
         map (\<lambda>(n, s). (n,
           case def s of
             ZodString checks \<Rightarrow> \<not> isOptional s
           | ZodNumber \<Rightarrow> \<not> isOptional s
           | ZodEnum opts \<Rightarrow> \<not> isOptional s
           | ZodBoolean checks \<Rightarrow> False
           | ZodOptional inner \<Rightarrow> False
           | ZodOther \<Rightarrow> False)) sh"
      by blast
    from cfg cfgs entry show ?case by simp
  qed
  then show ?thesis by (simp add: fieldConfigs_def)
qed

lemma fieldConfigs_required_nth:
  assumes "fieldConfigs t (ZodObject sh rs) = Inr cfgs" and "i < length sh"
  shows "name (cfgs ! i) = fst (sh ! i)"
    and "isRequired (cfgs ! i) =
           (case def (snd (sh ! i)) of
              ZodString checks \<Rightarrow> \<not> isOptional (snd (sh ! i))
            | ZodNumber \<Rightarrow> \<not> isOptional (snd (sh ! i))
            | ZodEnum opts \<Rightarrow> \<not> isOptional (snd (sh ! i))
            | ZodBoolean checks \<Rightarrow> False
            | ZodOptional inner \<Rightarrow> False
            | ZodOther \<Rightarrow> False)"
proof -
  from fieldConfigs_required [of t sh rs] assms(1) have
    eq: "map (\<lambda>cfg. (name cfg, isRequired cfg)) cfgs =
         map (\<lambda>(n, s). (n,
           case def s of
             ZodString checks \<Rightarrow> \<not> isOptional s
           | ZodNumber \<Rightarrow> \<not> isOptional s
           | ZodEnum opts \<Rightarrow> \<not> isOptional s
           | ZodBoolean checks \<Rightarrow> False
           | ZodOptional inner \<Rightarrow> False
           | ZodOther \<Rightarrow> False)) sh"
    by auto
  then have len: "length cfgs = length sh" by (rule map_eq_imp_length_eq)
  from eq have "map (\<lambda>cfg. (name cfg, isRequired cfg)) cfgs ! i =
         map (\<lambda>(n, s). (n,
           case def s of
             ZodString checks \<Rightarrow> \<not> isOptional s
           | ZodNumber \<Rightarrow> \<not> isOptional s
           | ZodEnum opts \<Rightarrow> \<not> isOptional s
           | ZodBoolean checks \<Rightarrow> False
           | ZodOptional inner \<Rightarrow> False
           | ZodOther \<Rightarrow> False)) sh ! i"
    by simp
  with assms(2) len have both: "(name (cfgs ! i), isRequired (cfgs ! i)) =
      (fst (sh ! i),
           case def (snd (sh ! i)) of
              ZodString checks \<Rightarrow> \<not> isOptional (snd (sh ! i))
            | ZodNumber \<Rightarrow> \<not> isOptional (snd (sh ! i))
            | ZodEnum opts \<Rightarrow> \<not> isOptional (snd (sh ! i))
            | ZodBoolean checks \<Rightarrow> False
            | ZodOptional inner \<Rightarrow> False
            | ZodOther \<Rightarrow> False)"
    by (simp add: case_prod_beta)
  from both show "name (cfgs ! i) = fst (sh ! i)" by simp
  from both show "isRequired (cfgs ! i) =
           (case def (snd (sh ! i)) of
              ZodString checks \<Rightarrow> \<not> isOptional (snd (sh ! i))
            | ZodNumber \<Rightarrow> \<not> isOptional (snd (sh ! i))
            | ZodEnum opts \<Rightarrow> \<not> isOptional (snd (sh ! i))
            | ZodBoolean checks \<Rightarrow> False
            | ZodOptional inner \<Rightarrow> False
            | ZodOther \<Rightarrow> False)" by simp
qed

lemma createFormSchema_required:
  "\<exists>cfgs. fieldConfigs t (createFormSchema t form) = Inr cfgs
     \<and> map (\<lambda>cfg. (name cfg, isRequired cfg)) cfgs =
        [(''name'', True), (''email'', True), (''country'', True), (''gender'', True),
         (''notifications'', False), (''password'', True), (''repeatPassword'', True),
         (''newsletter'', False), (''phoneNumber'', False), (''address'', False),
         (''terms'', False)]"
proof -
  have obj: "createFormSchema t form =
      ZodObject (shape (createFormSchema t form)) (refinements (createFormSchema t form))"
    by (simp add: createFormSchema_def)
  from fieldConfigs_required
    [of t "shape (createFormSchema t form)" "refinements (createFormSchema t form)"]
  obtain cfgs where
    c: "fieldConfigs t (createFormSchema t form) = Inr cfgs"
       "map (\<lambda>cfg. (name cfg, isRequired cfg)) cfgs =
         map (\<lambda>(n, s). (n,
           case def s of
             ZodString checks \<Rightarrow> \<not> isOptional s
           | ZodNumber \<Rightarrow> \<not> isOptional s
           | ZodEnum opts \<Rightarrow> \<not> isOptional s
           | ZodBoolean checks \<Rightarrow> False
           | ZodOptional inner \<Rightarrow> False
           | ZodOther \<Rightarrow> False)) (shape (createFormSchema t form))"
    using obj by auto
  have "map (\<lambda>(n, s). (n,
           case def s of
             ZodString checks \<Rightarrow> \<not> isOptional s
           | ZodNumber \<Rightarrow> \<not> isOptional s
           | ZodEnum opts \<Rightarrow> \<not> isOptional s
           | ZodBoolean checks \<Rightarrow> False
           | ZodOptional inner \<Rightarrow> False
           | ZodOther \<Rightarrow> False)) (shape (createFormSchema t form)) =
        [(''name'', True), (''email'', True), (''country'', True), (''gender'', True),
         (''notifications'', False), (''password'', True), (''repeatPassword'', True),
         (''newsletter'', False), (''phoneNumber'', False), (''address'', False),
         (''terms'', False)]"
    by (simp add: createFormSchema_def plain_def optional_def)
  with c show ?thesis by auto
qed

text \<open>
  Claim C4, as the code has it. Compiling an object schema always succeeds and gives one
  configuration per entry, in order, under the entry's name. For a text, number or
  single-choice node that is not wrapped in an optional modifier, \<open>isRequired\<close> is the
  negation of what the node answers to \<open>isOptional()\<close>: the field is required when the
  answer is false, and not required when the answer is true (a node that accepts
  \<open>undefined\<close> without being wrapped). \<open>isRequired\<close> is false for a boolean node, for
  every optional wrapper and for a node of an unsupported class. In the schema of the
  application the required fields are \<open>name\<close>, \<open>email\<close>, \<open>country\<close>, \<open>gender\<close>, \<open>password\<close>
  and \<open>repeatPassword\<close>; the booleans \<open>notifications\<close> and \<open>terms\<close> and the optional
  \<open>newsletter\<close>, \<open>phoneNumber\<close> and \<open>address\<close> are not.
\<close>

theorem isRequired_by_node_class:
  "(\<exists>cfgs. fieldConfigs t (ZodObject sh rs) = Inr cfgs
     \<and> map (\<lambda>cfg. (name cfg, isRequired cfg)) cfgs =
         map (\<lambda>(n, s). (n,
           case def s of
             ZodString checks \<Rightarrow> \<not> isOptional s
           | ZodNumber \<Rightarrow> \<not> isOptional s
           | ZodEnum opts \<Rightarrow> \<not> isOptional s
           | ZodBoolean checks \<Rightarrow> False
           | ZodOptional inner \<Rightarrow> False
           | ZodOther \<Rightarrow> False)) sh
     \<and> (\<forall>i < length sh.
          name (cfgs ! i) = fst (sh ! i)
          \<and> ((case def (snd (sh ! i)) of
                ZodString checks \<Rightarrow> True
              | ZodNumber \<Rightarrow> True
              | ZodEnum opts \<Rightarrow> True
              | ZodBoolean checks \<Rightarrow> False
              | ZodOptional inner \<Rightarrow> False
              | ZodOther \<Rightarrow> False) \<and> \<not> isOptional (snd (sh ! i)) \<longrightarrow> isRequired (cfgs ! i))
          \<and> (isOptional (snd (sh ! i)) \<longrightarrow> \<not> isRequired (cfgs ! i))
          \<and> (\<not> (case def (snd (sh ! i)) of
                ZodString checks \<Rightarrow> True
              | ZodNumber \<Rightarrow> True
              | ZodEnum opts \<Rightarrow> True
              | ZodBoolean checks \<Rightarrow> False
              | ZodOptional inner \<Rightarrow> False
              | ZodOther \<Rightarrow> False) \<longrightarrow> \<not> isRequired (cfgs ! i))))
   \<and> (\<exists>cfgs. fieldConfigs t (createFormSchema t form) = Inr cfgs
     \<and> map (\<lambda>cfg. (name cfg, isRequired cfg)) cfgs =
        [(''name'', True), (''email'', True), (''country'', True), (''gender'', True),
         (''notifications'', False), (''password'', True), (''repeatPassword'', True),
         (''newsletter'', False), (''phoneNumber'', False), (''address'', False),
         (''terms'', False)])"
proof -
  from fieldConfigs_required [of t sh rs] obtain cfgs where
    c: "fieldConfigs t (ZodObject sh rs) = Inr cfgs"
    and eq: "map (\<lambda>cfg. (name cfg, isRequired cfg)) cfgs =
         map (\<lambda>(n, s). (n,
           case def s of
             ZodString checks \<Rightarrow> \<not> isOptional s
           | ZodNumber \<Rightarrow> \<not> isOptional s
           | ZodEnum opts \<Rightarrow> \<not> isOptional s
           | ZodBoolean checks \<Rightarrow> False
           | ZodOptional inner \<Rightarrow> False
           | ZodOther \<Rightarrow> False)) sh"
    by blast
  have point: "name (cfgs ! i) = fst (sh ! i)
          \<and> ((case def (snd (sh ! i)) of
                ZodString checks \<Rightarrow> True
              | ZodNumber \<Rightarrow> True
              | ZodEnum opts \<Rightarrow> True
              | ZodBoolean checks \<Rightarrow> False
              | ZodOptional inner \<Rightarrow> False
              | ZodOther \<Rightarrow> False) \<and> \<not> isOptional (snd (sh ! i)) \<longrightarrow> isRequired (cfgs ! i))
          \<and> (isOptional (snd (sh ! i)) \<longrightarrow> \<not> isRequired (cfgs ! i))
          \<and> (\<not> (case def (snd (sh ! i)) of
                ZodString checks \<Rightarrow> True
              | ZodNumber \<Rightarrow> True
              | ZodEnum opts \<Rightarrow> True
              | ZodBoolean checks \<Rightarrow> False
              | ZodOptional inner \<Rightarrow> False
              | ZodOther \<Rightarrow> False) \<longrightarrow> \<not> isRequired (cfgs ! i))"
    if i: "i < length sh" for i
    using fieldConfigs_required_nth [OF c i]
    by (cases "def (snd (sh ! i))") simp_all
  from c eq point createFormSchema_required [of t form] show ?thesis by blast
qed

text \<open>
  Text, number and choice fields that answer false to \<open>isOptional()\<close> are required; an
  optional text field, an unwrapped text field that answers true, and a boolean are not.
\<close>

theorem isRequired_by_node_class_witness:
  "map_sum id (map (\<lambda>cfg. (name cfg, isRequired cfg)))
     (fieldConfigs (formatMessage (map_of en))
        (ZodObject
           [(''password'', plain (ZodString [MinLength 6 ''too short''])),
        (''age'', plain ZodNumber),
        (''country'', plain (ZodEnum [JString ''us'', JString ''fr''])),
        (''address'', optional (plain (ZodString []))),
        (''nickname'', ZodSchema (ZodString []) True (Inr MetaUndefined)),
        (''notifications'', plain (ZodBoolean []))] []))
   = Inr [(''password'', True), (''age'', True), (''country'', True), (''address'', False),
          (''nickname'', False), (''notifications'', False)]"
proof -
  let ?sh = "[(''password'', plain (ZodString [MinLength 6 ''too short''])),
        (''age'', plain ZodNumber),
        (''country'', plain (ZodEnum [JString ''us'', JString ''fr''])),
        (''address'', optional (plain (ZodString []))),
        (''nickname'', ZodSchema (ZodString []) True (Inr MetaUndefined)),
        (''notifications'', plain (ZodBoolean []))]"
  from isRequired_by_node_class [of "formatMessage (map_of en)" ?sh "[]" FormNull]
  obtain cfgs where
    c: "fieldConfigs (formatMessage (map_of en)) (ZodObject ?sh []) = Inr cfgs"
    and eq: "map (\<lambda>cfg. (name cfg, isRequired cfg)) cfgs =
         map (\<lambda>(n, s). (n,
           case def s of
             ZodString checks \<Rightarrow> \<not> isOptional s
           | ZodNumber \<Rightarrow> \<not> isOptional s
           | ZodEnum opts \<Rightarrow> \<not> isOptional s
           | ZodBoolean checks \<Rightarrow> False
           | ZodOptional inner \<Rightarrow> False
           | ZodOther \<Rightarrow> False)) ?sh"
    by blast
  from eq have "map (\<lambda>cfg. (name cfg, isRequired cfg)) cfgs =
      [(''password'', True), (''age'', True), (''country'', True), (''address'', False),
       (''nickname'', False), (''notifications'', False)]"
    by (simp add: plain_def optional_def)
  with c show ?thesis by simp
qed

text \<open>
  Claim C4 as stated fails: the boolean field \<open>notifications\<close> is not wrapped in an optional
  modifier and is compiled with \<open>isRequired = false\<close>; so is an unwrapped text field whose
  node answers true to \<open>isOptional()\<close>.
\<close>

theorem boolean_field_required_counterexample:
  "map_sum id (map (\<lambda>cfg. (name cfg, isRequired cfg)))
     (fieldConfigs (formatMessage (map_of en))
        (ZodObject [(''notifications'', plain (ZodBoolean []))] []))
   = Inr [(''notifications'', False)]
   \<and> def (plain (ZodBoolean [])) = ZodBoolean []
   \<and> isOptional (plain (ZodBoolean [])) = False
   \<and> map_sum id (map (\<lambda>cfg. (name cfg, isRequired cfg)))
     (fieldConfigs (formatMessage (map_of en))
        (ZodObject [(''nickname'', ZodSchema (ZodString []) True (Inr MetaUndefined))] []))
   = Inr [(''nickname'', False)]"
proof -
  have boolean: "map_sum id (map (\<lambda>cfg. (name cfg, isRequired cfg)))
     (fieldConfigs (formatMessage (map_of en))
        (ZodObject [(''notifications'', plain (ZodBoolean []))] []))
   = Inr [(''notifications'', False)]"
    by (simp add: fieldConfigs_def field_config_def typed_config_def find_meta_def try_meta_def
          plain_def)
  from fieldConfigs_required [of "formatMessage (map_of en)"
      "[(''nickname'', ZodSchema (ZodString []) True (Inr MetaUndefined))]" "[]"]
  have unwrapped: "map_sum id (map (\<lambda>cfg. (name cfg, isRequired cfg)))
     (fieldConfigs (formatMessage (map_of en))
        (ZodObject [(''nickname'', ZodSchema (ZodString []) True (Inr MetaUndefined))] []))
   = Inr [(''nickname'', False)]"
    by auto
  from boolean unwrapped show ?thesis by (simp add: plain_def)
qed

section \<open>Properties of the cross-field checks\<close>

lemma PasswordValidator_validation_iff:
  "PasswordValidator_validation v = (\<exists>s. v = JString s \<and> 6 \<le> length s)"
  by (cases v) auto

lemma PhoneValidator_validation_iff:
  "PhoneValidator_validation v = (\<exists>s. v = JString s \<and> length s = 10)"
  by (cases v) auto

lemma refinements_createFormSchema:
  "refinements (createFormSchema t form) =
     [\<lparr>check = (\<lambda>data requested. (checkPasswordMatch data, requested)),
       message = PasswordValidator_errMessage t, path = [''repeatPassword'']\<rparr>,
      \<lparr>check = checkPhoneNumberLength form,
       message = PhoneValidator_errMessage t, path = [''phoneNumber'']\<rparr>]"
  by (simp add: createFormSchema_def)

lemma run_refinements_createFormSchema:
  "fst (run_refinements (refinements (createFormSchema t form)) data requested) =
     [(checkPasswordMatch data, PasswordValidator_errMessage t, [''repeatPassword'']),
      (fst (checkPhoneNumberLength form data requested), PhoneValidator_errMessage t,
         [''phoneNumber''])]"
  by (simp add: refinements_createFormSchema split: prod.splits)

lemma refinement_errors_createFormSchema:
  "refinement_errors (createFormSchema t form) data fieldName =
     map (\<lambda>(ok, m, p). m)
       (filter (\<lambda>(ok, m, p). \<not> ok \<and> p = [fieldName])
          (fst (run_refinements (refinements (createFormSchema t form)) data [])))"
  by (simp add: refinement_errors_def createFormSchema_def)

lemma refinement_errors_repeatPassword:
  "refinement_errors (createFormSchema t form) data ''repeatPassword'' =
     (if checkPasswordMatch data then [] else [PasswordValidator_errMessage t])"
  by (simp add: refinement_errors_createFormSchema run_refinements_createFormSchema)

lemma refinement_errors_password:
  "refinement_errors (createFormSchema t form) data ''password'' = []"
  by (simp add: refinement_errors_createFormSchema run_refinements_createFormSchema)

lemma refinement_errors_phoneNumber:
  "refinement_errors (createFormSchema t form) data ''phoneNumber'' =
     (if fst (checkPhoneNumberLength form data []) then [] else [PhoneValidator_errMessage t])"
  by (simp add: refinement_errors_createFormSchema run_refinements_createFormSchema)

lemma field_checks_password:
  "field_checks (createFormSchema t form) ''password'' =
     [MinLength 6 (t \<lparr>msg_id = ''error.password.min'', defaultMessage = None\<rparr> None)]"
  by (simp add: field_checks_def createFormSchema_def plain_def)

lemma field_checks_repeatPassword:
  "field_checks (createFormSchema t form) ''repeatPassword'' =
     [MinLength 6 (t \<lparr>msg_id = ''error.password.min'', defaultMessage = None\<rparr> None)]"
  by (simp add: field_checks_def createFormSchema_def plain_def)

lemma en_password_length:
  "formatMessage (map_of en) \<lparr>msg_id = ''error.password.length'', defaultMessage = None\<rparr> None
     = ''Password must be at least 6 characters''"
  by (simp add: formatMessage_def en_def)

lemma en_password_min:
  "formatMessage (map_of en) \<lparr>msg_id = ''error.password.min'', defaultMessage = None\<rparr> None
     = ''Password must be at least 6 characters''"
  by (simp add: formatMessage_def en_def)

lemma en_phoneNumber_length:
  "formatMessage (map_of en) \<lparr>msg_id = ''error.phoneNumber.length'', defaultMessage = None\<rparr> None
     = ''Phone number must be exactly 10 digits''"
  by (simp add: formatMessage_def en_def)

text \<open>
  Claim C2. The cross-field password check of the whole schema returns true exactly when the
  value of \<open>password\<close> is a string of length at least 6; the value of \<open>repeatPassword\<close> has
  no influence on it. It is the first refinement of the schema; its message is the
  translation of \<open>error.password.length\<close> and its path is \<open>['repeatPassword']\<close>, so a failing
  check puts its message on \<open>repeatPassword\<close> and nothing on \<open>password\<close>.
\<close>

theorem password_confirmation_check:
  "checkPasswordMatch data = (\<exists>s. read_field data ''password'' = JString s \<and> 6 \<le> length s)
   \<and> checkPasswordMatch (data(''repeatPassword'' := r)) = checkPasswordMatch data
   \<and> check (refinements (createFormSchema t form) ! 0) data requested
        = (checkPasswordMatch data, requested)
   \<and> message (refinements (createFormSchema t form) ! 0)
        = t \<lparr>msg_id = ''error.password.length'', defaultMessage = None\<rparr> None
   \<and> path (refinements (createFormSchema t form) ! 0) = [''repeatPassword'']
   \<and> refinement_errors (createFormSchema t form) data ''repeatPassword''
        = (if checkPasswordMatch data then []
           else [t \<lparr>msg_id = ''error.password.length'', defaultMessage = None\<rparr> None])
   \<and> refinement_errors (createFormSchema t form) data ''password'' = []"
proof -
  have a: "checkPasswordMatch data = (\<exists>s. read_field data ''password'' = JString s \<and> 6 \<le> length s)"
    by (simp add: checkPasswordMatch_def PasswordValidator_validation_iff)
  have b: "checkPasswordMatch (data(''repeatPassword'' := r)) = checkPasswordMatch data"
    by (simp add: checkPasswordMatch_def read_field_def)
  have c: "check (refinements (createFormSchema t form) ! 0) data requested
        = (checkPasswordMatch data, requested)"
    "message (refinements (createFormSchema t form) ! 0)
        = t \<lparr>msg_id = ''error.password.length'', defaultMessage = None\<rparr> None"
    "path (refinements (createFormSchema t form) ! 0) = [''repeatPassword'']"
    by (simp_all add: refinements_createFormSchema PasswordValidator_errMessage_def)
  have d: "refinement_errors (createFormSchema t form) data ''repeatPassword''
        = (if checkPasswordMatch data then []
           else [t \<lparr>msg_id = ''error.password.length'', defaultMessage = None\<rparr> None])"
    by (simp add: refinement_errors_repeatPassword PasswordValidator_errMessage_def)
  from a b c d refinement_errors_password [of t form data] show ?thesis by blast
qed

text \<open>A password of five characters, and a confirmation field that is missing.\<close>

theorem password_confirmation_check_witness:
  "\<not> checkPasswordMatch (defaultValues(''password'' \<mapsto> JString ''12345''))
   \<and> refinement_errors (createFormSchema (formatMessage (map_of en)) FormNull)
        (defaultValues(''password'' \<mapsto> JString ''12345'')) ''repeatPassword''
      = [''Password must be at least 6 characters'']
   \<and> checkPasswordMatch (defaultValues(''repeatPassword'' := None))
   \<and> refinement_errors (createFormSchema (formatMessage (map_of en)) FormNull)
        (defaultValues(''repeatPassword'' := None)) ''repeatPassword'' = []"
  using password_confirmation_check
      [of "defaultValues(''password'' \<mapsto> JString ''12345'')" undefined
          "formatMessage (map_of en)" FormNull]
    password_confirmation_check
      [of "defaultValues(''repeatPassword'' := None)" undefined
          "formatMessage (map_of en)" FormNull]
  by (simp add: defaultValues_def read_field_def en_password_length)

text \<open>
  Claim C3, as the code has it. With \<open>password = "123456"\<close> and \<open>repeatPassword = "1234"\<close>
  (the other fields at their defaults) the cross-field password check passes, since the
  password has six characters, and attaches nothing to \<open>repeatPassword\<close>. The error on
  \<open>repeatPassword\<close> is the one of the field's own check \<open>min(6)\<close>, which four characters
  fail; \<open>password\<close> has no error, neither of its own check nor of a refinement.
\<close>

theorem repeatPassword_scenario:
  "checkPasswordMatch (defaultValues(''repeatPassword'' \<mapsto> JString ''1234''))
   \<and> refinement_errors (createFormSchema t form)
        (defaultValues(''repeatPassword'' \<mapsto> JString ''1234'')) ''repeatPassword'' = []
   \<and> field_errors email_ok (createFormSchema t form)
        (defaultValues(''repeatPassword'' \<mapsto> JString ''1234'')) ''repeatPassword''
      = [t \<lparr>msg_id = ''error.password.min'', defaultMessage = None\<rparr> None]
   \<and> field_errors email_ok (createFormSchema t form)
        (defaultValues(''repeatPassword'' \<mapsto> JString ''1234'')) ''password'' = []
   \<and> refinement_errors (createFormSchema t form)
        (defaultValues(''repeatPassword'' \<mapsto> JString ''1234'')) ''password'' = []"
proof -
  let ?d = "defaultValues(''repeatPassword'' \<mapsto> JString ''1234'')"
  have pw: "read_field ?d ''password'' = JString ''123456''"
    by (simp add: defaultValues_def read_field_def)
  have rp: "read_field ?d ''repeatPassword'' = JString ''1234''"
    by (simp add: read_field_def)
  have a: "checkPasswordMatch ?d" by (simp add: checkPasswordMatch_def pw)
  then have b: "refinement_errors (createFormSchema t form) ?d ''repeatPassword'' = []"
    by (simp add: refinement_errors_repeatPassword)
  have c: "field_errors email_ok (createFormSchema t form) ?d ''repeatPassword''
      = [t \<lparr>msg_id = ''error.password.min'', defaultMessage = None\<rparr> None]"
    unfolding field_errors_def field_checks_repeatPassword rp by simp
  have d: "field_errors email_ok (createFormSchema t form) ?d ''password'' = []"
    unfolding field_errors_def field_checks_password pw by simp
  from a b c d refinement_errors_password [of t form ?d] show ?thesis by blast
qed

text \<open>The scenario with the English messages.\<close>

theorem repeatPassword_scenario_witness:
  "field_errors (\<lambda>s. True) (createFormSchema (formatMessage (map_of en)) FormInstance)
        (defaultValues(''repeatPassword'' \<mapsto> JString ''1234'')) ''repeatPassword''
      = [''Password must be at least 6 characters'']
   \<and> refinement_errors (createFormSchema (formatMessage (map_of en)) FormInstance)
        (defaultValues(''repeatPassword'' \<mapsto> JString ''1234'')) ''repeatPassword'' = []"
  using repeatPassword_scenario [where t = "formatMessage (map_of en)" and form = FormInstance and email_ok = "\<lambda>s. True"]
  by (simp add: en_password_min)

text \<open>
  Claim C3 as stated fails: on these two values the cross-field password check returns true.
\<close>

theorem repeatPassword_scenario_counterexample:
  "checkPasswordMatch [''password'' \<mapsto> JString ''123456'', ''repeatPassword'' \<mapsto> JString ''1234'']
   \<and> fst (check (refinements (createFormSchema (formatMessage (map_of en)) FormNull) ! 0)
        [''password'' \<mapsto> JString ''123456'', ''repeatPassword'' \<mapsto> JString ''1234''] [])"
  by (simp add: refinements_createFormSchema checkPasswordMatch_def read_field_def)

text \<open>
  Claim C8, as the code has it. When \<open>country\<close> is not \<open>'us'\<close> the conditional phone check
  returns true and requests nothing. When \<open>country\<close> is \<open>'us'\<close> it returns true exactly when
  \<open>phoneNumber\<close> is a string of length 10, and it requests a re-validation of \<open>phoneNumber\<close>
  when there is a form instance (none when \<open>form\<close> is \<open>null\<close>). It is the second refinement
  of the schema, with the translation of \<open>error.phoneNumber.length\<close> as message and the path
  \<open>['phoneNumber']\<close>.
\<close>

theorem conditional_phone_check:
  "(read_field data ''country'' \<noteq> JString ''us'' \<longrightarrow>
      checkPhoneNumberLength form data requested = (True, requested))
   \<and> (read_field data ''country'' = JString ''us'' \<longrightarrow>
      fst (checkPhoneNumberLength form data requested)
        = (\<exists>s. read_field data ''phoneNumber'' = JString s \<and> length s = 10)
      \<and> snd (checkPhoneNumberLength form data requested)
        = (case form of FormNull \<Rightarrow> requested | FormInstance \<Rightarrow> requested @ [''phoneNumber'']))
   \<and> check (refinements (createFormSchema t form) ! 1) = checkPhoneNumberLength form
   \<and> message (refinements (createFormSchema t form) ! 1)
        = t \<lparr>msg_id = ''error.phoneNumber.length'', defaultMessage = None\<rparr> None
   \<and> path (refinements (createFormSchema t form) ! 1) = [''phoneNumber'']
   \<and> refinement_errors (createFormSchema t form) data ''phoneNumber''
        = (if fst (checkPhoneNumberLength form data []) then []
           else [t \<lparr>msg_id = ''error.phoneNumber.length'', defaultMessage = None\<rparr> None])"
proof -
  have a: "read_field data ''country'' \<noteq> JString ''us'' \<longrightarrow>
      checkPhoneNumberLength form data requested = (True, requested)"
    by (simp add: checkPhoneNumberLength_def strict_eq_def)
  have b: "read_field data ''country'' = JString ''us'' \<longrightarrow>
      fst (checkPhoneNumberLength form data requested)
        = (\<exists>s. read_field data ''phoneNumber'' = JString s \<and> length s = 10)
      \<and> snd (checkPhoneNumberLength form data requested)
        = (case form of FormNull \<Rightarrow> requested | FormInstance \<Rightarrow> requested @ [''phoneNumber''])"
    by (simp add: checkPhoneNumberLength_def strict_eq_def trigger_def
          PhoneValidator_validation_iff)
  have c: "check (refinements (createFormSchema t form) ! 1) = checkPhoneNumberLength form"
    "message (refinements (createFormSchema t form) ! 1)
        = t \<lparr>msg_id = ''error.phoneNumber.length'', defaultMessage = None\<rparr> None"
    "path (refinements (createFormSchema t form) ! 1) = [''phoneNumber'']"
    by (simp_all add: refinements_createFormSchema PhoneValidator_errMessage_def)
  have d: "refinement_errors (createFormSchema t form) data ''phoneNumber''
        = (if fst (checkPhoneNumberLength form data []) then []
           else [t \<lparr>msg_id = ''error.phoneNumber.length'', defaultMessage = None\<rparr> None])"
    by (simp add: refinement_errors_phoneNumber PhoneValidator_errMessage_def)
  from a b c d show ?thesis by blast
qed

text \<open>The default values (country \<open>fr\<close>), then country \<open>us\<close> without and with a phone number.\<close>

theorem conditional_phone_check_witness:
  "checkPhoneNumberLength FormInstance defaultValues [] = (True, [])
   \<and> checkPhoneNumberLength FormInstance (defaultValues(''country'' \<mapsto> JString ''us'')) []
        = (False, [''phoneNumber''])
   \<and> checkPhoneNumberLength FormInstance
        (defaultValues(''country'' \<mapsto> JString ''us'', ''phoneNumber'' \<mapsto> JString ''0123456789'')) []
        = (True, [''phoneNumber''])
   \<and> refinement_errors (createFormSchema (formatMessage (map_of en)) FormInstance)
        (defaultValues(''country'' \<mapsto> JString ''us'')) ''phoneNumber''
        = [''Phone number must be exactly 10 digits'']"
  using
    conditional_phone_check [of defaultValues FormInstance "[]" "formatMessage (map_of en)"]
    conditional_phone_check [of "defaultValues(''country'' \<mapsto> JString ''us'')" FormInstance
       "[]" "formatMessage (map_of en)"]
    conditional_phone_check [of
       "defaultValues(''country'' \<mapsto> JString ''us'', ''phoneNumber'' \<mapsto> JString ''0123456789'')"
       FormInstance "[]" "formatMessage (map_of en)"]
  by (simp add: defaultValues_def read_field_def prod_eq_iff en_phoneNumber_length)

text \<open>
  Claim C8 as stated fails: evaluating the check requests no re-validation when \<open>country\<close>
  is \<open>'fr'\<close>, nor when \<open>country\<close> is \<open>'us'\<close> and \<open>form\<close> is \<open>null\<close>.
\<close>

theorem phone_check_trigger_counterexample:
  "snd (checkPhoneNumberLength FormInstance
          [''country'' \<mapsto> JString ''fr'', ''phoneNumber'' \<mapsto> JString ''''] []) = []
   \<and> snd (checkPhoneNumberLength FormNull
          [''country'' \<mapsto> JString ''us'', ''phoneNumber'' \<mapsto> JString ''''] []) = []"
  by (simp add: checkPhoneNumberLength_def read_field_def strict_eq_def trigger_def)

section \<open>Properties of the localization provider\<close>

lemma replace_placeholders_plain:
  "CHR ''{'' \<notin> set pre \<Longrightarrow>
   replace_placeholders f (pre @ rest) = pre @ replace_placeholders f rest"
  by (induction pre) auto

lemma close_brace_not_word: "\<not> is_word_char CHR ''}''"
  by (simp add: is_word_char_def)

lemma takeWhile_key:
  "\<forall>c \<in> set key. is_word_char c \<Longrightarrow>
   takeWhile is_word_char (key @ CHR ''}'' # post) = key"
  by (simp add: close_brace_not_word)

lemma dropWhile_key:
  "\<forall>c \<in> set key. is_word_char c \<Longrightarrow>
   dropWhile is_word_char (key @ CHR ''}'' # post) = CHR ''}'' # post"
  by (simp add: close_brace_not_word)

lemma replace_placeholders_match:
  assumes "key \<noteq> []" and "\<forall>c \<in> set key. is_word_char c"
  shows "replace_placeholders f (CHR ''{'' # key @ CHR ''}'' # post) =
           f (CHR ''{'' # key @ [CHR ''}'']) key @ replace_placeholders f post"
proof -
  have tk: "takeWhile is_word_char (key @ CHR ''}'' # post) = key"
    using assms(2) by (rule takeWhile_key)
  have dk: "dropWhile is_word_char (key @ CHR ''}'' # post) = CHR ''}'' # post"
    using assms(2) by (rule dropWhile_key)
  from assms(1) show ?thesis by (simp add: tk dk)
qed

lemma replace_placeholders_identity:
  "replace_placeholders (\<lambda>m k. m) s = s"
proof (induction s rule: length_induct)
  case (1 s)
  show ?case
  proof (cases s)
    case Nil
    then show ?thesis by simp
  next
    case (Cons c cs)
    have short: "replace_placeholders (\<lambda>m k. m) cs = cs"
      using 1 Cons by simp
    show ?thesis
    proof (cases "dropWhile is_word_char cs")
      case Nil
      with Cons short show ?thesis by (simp del: dropWhile_eq_Nil_conv)
    next
      case d: (Cons d rest)
      have split: "cs = takeWhile is_word_char cs @ d # rest"
        using takeWhile_dropWhile_id [of is_word_char cs] d by simp
      then have "length rest < length s"
        using Cons length_append [of "takeWhile is_word_char cs" "d # rest"] by simp
      with 1 have r: "replace_placeholders (\<lambda>m k. m) rest = rest" by blast
      from split have whole: "takeWhile is_word_char cs @ d # rest = cs" by simp
      have "replace_placeholders (\<lambda>m k. m) (c # cs) = c # cs"
        using d short r whole by auto
      with Cons show ?thesis by simp
    qed
  qed
qed

lemma formatMessage_all_falsy:
  "(\<forall>k. \<not> truthy (read_field vs k)) \<Longrightarrow> formatMessage table d (Some vs) = formatMessage table d None"
proof -
  assume "\<forall>k. \<not> truthy (read_field vs k)"
  then have "substitute vs = (\<lambda>m k. m)"
    by (intro ext) (simp add: substitute_def)
  then show ?thesis
    by (simp add: formatMessage_def replace_placeholders_identity split: option.splits)
qed

lemma en_field_placeholder:
  "map_of en ''form.field.placeholder'' = Some ''Enter {fieldName}''"
  by (simp add: en_def)

lemma word_fieldName: "\<forall>c \<in> set ''fieldName''. is_word_char c"
  by (simp add: is_word_char_def)

text \<open>
  Claim C10. When the key is unknown, \<open>formatMessage\<close> returns the default message (the raw
  key when there is none or it is empty) whatever the values are: no placeholder is
  substituted. When the key resolves to a message with a placeholder \<open>{key}\<close> (after a text
  without \<open>{\<close>), the placeholder is replaced by the value of \<open>key\<close> if that value is truthy;
  if the value is falsy (missing, empty string, \<open>0\<close>, \<open>false\<close>) the text \<open>{key}\<close> stays in the
  result. Without values the message is returned as it is, and so it is with values that
  are all falsy, whatever placeholders the message has.
\<close>

theorem formatMessage_placeholders:
  "(table (msg_id d) = None \<longrightarrow>
      formatMessage table d vals =
        (case defaultMessage d of
           None \<Rightarrow> msg_id d
         | Some m \<Rightarrow> if m = [] then msg_id d else m))
   \<and> (table (msg_id d) = Some (pre @ CHR ''{'' # key @ CHR ''}'' # post)
        \<and> CHR ''{'' \<notin> set pre \<and> key \<noteq> [] \<and> (\<forall>c \<in> set key. is_word_char c) \<longrightarrow>
      formatMessage table d (Some vs) =
        pre @ (if truthy (read_field vs key) then to_string (read_field vs key)
               else CHR ''{'' # key @ [CHR ''}''])
          @ replace_placeholders (substitute vs) post
      \<and> formatMessage table d None = pre @ CHR ''{'' # key @ CHR ''}'' # post)
   \<and> ((\<forall>k. \<not> truthy (read_field vs k)) \<longrightarrow>
      formatMessage table d (Some vs) = formatMessage table d None)"
proof -
  have unknown: "table (msg_id d) = None \<longrightarrow>
      formatMessage table d vals =
        (case defaultMessage d of
           None \<Rightarrow> msg_id d
         | Some m \<Rightarrow> if m = [] then msg_id d else m)"
    by (simp add: formatMessage_def split: option.splits)
  have known: "formatMessage table d (Some vs) =
        pre @ (if truthy (read_field vs key) then to_string (read_field vs key)
               else CHR ''{'' # key @ [CHR ''}''])
          @ replace_placeholders (substitute vs) post
      \<and> formatMessage table d None = pre @ CHR ''{'' # key @ CHR ''}'' # post"
    if msg: "table (msg_id d) = Some (pre @ CHR ''{'' # key @ CHR ''}'' # post)"
      and pre: "CHR ''{'' \<notin> set pre" and key: "key \<noteq> []" "\<forall>c \<in> set key. is_word_char c"
  proof -
    have "replace_placeholders (substitute vs) (pre @ CHR ''{'' # key @ CHR ''}'' # post) =
            pre @ substitute vs (CHR ''{'' # key @ [CHR ''}'']) key
              @ replace_placeholders (substitute vs) post"
      using replace_placeholders_plain [OF pre] replace_placeholders_match [OF key] by simp
    with msg show ?thesis by (simp add: formatMessage_def substitute_def)
  qed
  from unknown known formatMessage_all_falsy [of vs table d] show ?thesis by blast
qed

text \<open>
  The message \<open>Enter {fieldName}\<close> with a name, with the empty string, \<open>0\<close>, \<open>false\<close> and no
  value; an unknown key with a default message and without.
\<close>

theorem formatMessage_placeholders_witness:
  "formatMessage (map_of en) \<lparr>msg_id = ''form.field.placeholder'', defaultMessage = None\<rparr>
      (Some [''fieldName'' \<mapsto> JString ''email'']) = ''Enter email''
   \<and> formatMessage (map_of en) \<lparr>msg_id = ''form.field.placeholder'', defaultMessage = None\<rparr>
      (Some [''fieldName'' \<mapsto> JString []]) = ''Enter {fieldName}''
   \<and> formatMessage (map_of en) \<lparr>msg_id = ''form.field.placeholder'', defaultMessage = None\<rparr>
      (Some [''fieldName'' \<mapsto> JNumber 0]) = ''Enter {fieldName}''
   \<and> formatMessage (map_of en) \<lparr>msg_id = ''form.field.placeholder'', defaultMessage = None\<rparr>
      (Some [''fieldName'' \<mapsto> JBool False]) = ''Enter {fieldName}''
   \<and> formatMessage (map_of en) \<lparr>msg_id = ''form.field.placeholder'', defaultMessage = None\<rparr>
      (Some Map.empty) = ''Enter {fieldName}''
   \<and> formatMessage Map.empty \<lparr>msg_id = ''form.greeting'', defaultMessage = Some ''Hello {fieldName}''\<rparr>
      (Some [''fieldName'' \<mapsto> JString ''Robin'']) = ''Hello {fieldName}''
   \<and> formatMessage Map.empty \<lparr>msg_id = ''form.{fieldName}'', defaultMessage = None\<rparr>
      (Some [''fieldName'' \<mapsto> JString ''Robin'']) = ''form.{fieldName}''"
proof -
  let ?d = "\<lparr>msg_id = ''form.field.placeholder'', defaultMessage = None\<rparr>"
  have msg: "map_of en (msg_id ?d) = Some (''Enter '' @ CHR ''{'' # ''fieldName'' @ CHR ''}'' # [])"
    by (simp add: en_field_placeholder)
  have pre: "CHR ''{'' \<notin> set ''Enter ''" by simp
  have key: "''fieldName'' \<noteq> []" by simp
  note w = word_fieldName
  show ?thesis
    using
      formatMessage_placeholders [where table = "map_of en" and d = ?d and pre = "''Enter ''"
        and key = "''fieldName''" and post = "[]" and vs = "[''fieldName'' \<mapsto> JString ''email'']"]
      formatMessage_placeholders [where table = "map_of en" and d = ?d and pre = "''Enter ''"
        and key = "''fieldName''" and post = "[]" and vs = "[''fieldName'' \<mapsto> JString []]"]
      formatMessage_placeholders [where table = "map_of en" and d = ?d and pre = "''Enter ''"
        and key = "''fieldName''" and post = "[]" and vs = "[''fieldName'' \<mapsto> JNumber 0]"]
      formatMessage_placeholders [where table = "map_of en" and d = ?d and pre = "''Enter ''"
        and key = "''fieldName''" and post = "[]" and vs = "[''fieldName'' \<mapsto> JBool False]"]
      formatMessage_placeholders [where table = "map_of en" and d = ?d and pre = "''Enter ''"
        and key = "''fieldName''" and post = "[]" and vs = "Map.empty"]
      formatMessage_placeholders [where table = "Map.empty"
        and d = "\<lparr>msg_id = ''form.greeting'', defaultMessage = Some ''Hello {fieldName}''\<rparr>"
        and vals = "Some [''fieldName'' \<mapsto> JString ''Robin'']"]
      formatMessage_placeholders [where table = "Map.empty"
        and d = "\<lparr>msg_id = ''form.{fieldName}'', defaultMessage = None\<rparr>"
        and vals = "Some [''fieldName'' \<mapsto> JString ''Robin'']"]
      msg pre key w
    by (simp add: read_field_def)
qed

end
